theory Spec2Isabelle
  imports Main "HOL-Library.Word"
begin

section \<open>Wake-on-LAN service: the custom magic-packet sender and the /wakeup handler\<close>

text \<open>
  The development follows the service's main file: \<open>sendCustomMagicPacket\<close> (address
  validation, packet construction, the UDP socket) and the \<open>POST /wakeup\<close> handler (address
  resolution, options, the library and the custom attempts, aggregation of the results).

  JavaScript strings are modelled as \<open>string\<close>; a hardware address is the string the
  request or the environment carries, as the README documents it. A \<open>Buffer\<close> is a list of
  bytes (\<open>8 word\<close>). The \<open>macAddress\<close> of a request is any JSON value; the interface and
  the method are strings and the port is an integer, as the test page sends them. The
  network fails in three places: a bind that fails raises the socket's \<open>error\<close> event, a
  destination that does not resolve and a send that fails report to the callback of
  \<open>socket.send\<close>. Two calls of the sender raise an exception at once: \<open>mac.replace\<close> on
  a value that is not a string, and \<open>socket.send\<close> with a port outside 1 to 65535.
\<close>

subsection \<open>Strings: separator stripping, the hexadecimal test, \<open>substring\<close>, \<open>parseInt\<close>\<close>

type_synonym byte = "8 word"

text \<open>\<open>mac.replace(/[:-]/g, '')\<close>: every colon and every dash is removed.\<close>

definition stripSeparators :: "string \<Rightarrow> string" where
  "stripSeparators mac = filter (\<lambda>c. c \<noteq> CHR '':'' \<and> c \<noteq> CHR ''-'') mac"

text \<open>The value of a hexadecimal digit of either case; \<open>None\<close> for any other character.\<close>

definition hexDigitValue :: "char \<Rightarrow> nat option" where
  "hexDigitValue c =
     (let n = (of_char c :: nat) in
      if 48 \<le> n \<and> n \<le> 57 then Some (n - 48)
      else if 65 \<le> n \<and> n \<le> 70 then Some (n - 55)
      else if 97 \<le> n \<and> n \<le> 102 then Some (n - 87)
      else None)"

definition isHexDigit :: "char \<Rightarrow> bool" where
  "isHexDigit c = (hexDigitValue c \<noteq> None)"

text \<open>\<open>/^[0-9A-F]{12}$/i.test(s)\<close>: the whole string is twelve hexadecimal digits.\<close>

definition testHex12 :: "string \<Rightarrow> bool" where
  "testHex12 s = (length s = 12 \<and> list_all isHexDigit s)"

text \<open>
  The rejection test of the source:
  \<open>macAddress.length !== 12 || !/^[0-9A-F]{12}$/i.test(macAddress)\<close>.
\<close>

definition invalidMac :: "string \<Rightarrow> bool" where
  "invalidMac macAddress = (length macAddress \<noteq> 12 \<or> \<not> testHex12 macAddress)"

text \<open>\<open>s.substring(a, b)\<close> for \<open>a \<le> b\<close>; both ends are clamped to the length.\<close>

definition substring :: "string \<Rightarrow> nat \<Rightarrow> nat \<Rightarrow> string" where
  "substring s a b = take (b - a) (drop a s)"

text \<open>
  \<open>parseInt(s, 16)\<close>: leading white space is skipped, a sign and a \<open>0x\<close> prefix are
  accepted, then the longest run of hexadecimal digits is read; with no digit the result is
  \<open>NaN\<close>, here \<open>None\<close>.
\<close>

definition isWhiteSpace :: "char \<Rightarrow> bool" where
  "isWhiteSpace c = ((of_char c :: nat) \<in> {9, 10, 11, 12, 13, 32})"

fun hexValue :: "int \<Rightarrow> string \<Rightarrow> int" where
  "hexValue acc [] = acc"
| "hexValue acc (c # cs) =
     (case hexDigitValue c of
        None \<Rightarrow> acc
      | Some d \<Rightarrow> hexValue (16 * acc + int d) cs)"

fun stripSign :: "string \<Rightarrow> int \<times> string" where
  "stripSign (c # cs) =
     (if c = CHR ''-'' then (- 1, cs) else if c = CHR ''+'' then (1, cs) else (1, c # cs))"
| "stripSign [] = (1, [])"

fun stripHexPrefix :: "string \<Rightarrow> string" where
  "stripHexPrefix (a # b # cs) =
     (if a = CHR ''0'' \<and> (b = CHR ''x'' \<or> b = CHR ''X'') then cs else a # b # cs)"
| "stripHexPrefix cs = cs"

definition parseInt16 :: "string \<Rightarrow> int option" where
  "parseInt16 s =
     (let (sign, body) = stripSign (dropWhile isWhiteSpace s);
          digits = stripHexPrefix body
      in case digits of
           [] \<Rightarrow> None
         | c # cs \<Rightarrow> (if isHexDigit c then Some (sign * hexValue 0 digits) else None))"

text \<open>
  Storing a number into a \<open>Buffer\<close> cell keeps its low eight bits; \<open>NaN\<close> is stored as 0.
  An index outside the buffer is ignored, as \<open>list_update\<close> does.
\<close>

definition toUint8 :: "int option \<Rightarrow> byte" where
  "toUint8 v = (case v of None \<Rightarrow> 0 | Some n \<Rightarrow> word_of_int n)"

subsection \<open>The magic packet\<close>

text \<open>
  Lines 176 to 188 of the sender: a zeroed buffer of 102 bytes, the first loop writes six
  bytes \<open>0xFF\<close>, the nested loops write byte \<open>j\<close> of the address at \<open>6 + i * 6 + j\<close>.
\<close>

definition fillHeader :: "byte list \<Rightarrow> byte list" where
  "fillHeader buf = fold (\<lambda>i b. b[i := 0xFF]) [0..<6] buf"

definition macByte :: "string \<Rightarrow> nat \<Rightarrow> byte" where
  "macByte macAddress j = toUint8 (parseInt16 (substring macAddress (j * 2) (j * 2 + 2)))"

definition fillRepetition :: "string \<Rightarrow> nat \<Rightarrow> byte list \<Rightarrow> byte list" where
  "fillRepetition macAddress i buf =
     fold (\<lambda>j b. b[6 + i * 6 + j := macByte macAddress j]) [0..<6] buf"

definition fillRepetitions :: "string \<Rightarrow> byte list \<Rightarrow> byte list" where
  "fillRepetitions macAddress buf = fold (fillRepetition macAddress) [0..<16] buf"

definition createMagicPacket :: "string \<Rightarrow> byte list" where
  "createMagicPacket macAddress = fillRepetitions macAddress (fillHeader (replicate 102 0))"

text \<open>
  The data model's reading of a hardware address: each adjacent pair of hexadecimal digits
  is one byte, the first digit the high half.
\<close>

definition addressBytes :: "string \<Rightarrow> byte list" where
  "addressBytes s =
     map (\<lambda>j. of_nat (16 * the (hexDigitValue (s ! (2 * j))) + the (hexDigitValue (s ! (2 * j + 1)))))
       [0..<6]"

subsection \<open>Options, promises and the UDP socket\<close>

text \<open>
  An absent field of a JavaScript object is \<open>None\<close>. \<open>a || b\<close> takes \<open>b\<close> when \<open>a\<close> is
  absent, the empty string or the number 0.
\<close>

text \<open>
  A value of the parsed JSON body; \<open>JObject\<close> stands for objects and arrays alike. A value
  is truthy unless it is the empty string, the number 0, \<open>false\<close> or \<open>null\<close>.
\<close>

datatype jsValue = JString string | JNumber int | JBool bool | JNull | JObject

fun truthyValue :: "jsValue \<Rightarrow> bool" where
  "truthyValue (JString s) = (s \<noteq> [])"
| "truthyValue (JNumber n) = (n \<noteq> 0)"
| "truthyValue (JBool b) = b"
| "truthyValue JNull = False"
| "truthyValue JObject = True"

definition truthy :: "jsValue option \<Rightarrow> bool" where
  "truthy v = (case v of None \<Rightarrow> False | Some x \<Rightarrow> truthyValue x)"

record options =
  opt_address :: "string option"
  opt_port :: "int option"
  opt_interface :: "string option"

definition truthyString :: "string option \<Rightarrow> bool" where
  "truthyString v = (case v of None \<Rightarrow> False | Some s \<Rightarrow> s \<noteq> [])"

definition truthyNumber :: "int option \<Rightarrow> bool" where
  "truthyNumber v = (case v of None \<Rightarrow> False | Some n \<Rightarrow> n \<noteq> 0)"

record datagram =
  dg_payload :: "byte list"
  dg_port :: int
  dg_address :: string

datatype bindState = Unbound | Binding | Bound

datatype socketEvent =
    Created
  | BindRequested "string option"
  | SendRequested datagram
  | BroadcastSet bool
  | Transmitted datagram
  | Closed

text \<open>
  The \<open>dgram\<close> socket of Node (the Dockerfile runs Node 23) as the sender uses it; this
  part describes the runtime, not code of the repository. \<open>sk_log\<close> records, in order,
  what has happened to the socket: \<open>SendRequested\<close> is the call of \<open>socket.send\<close>,
  \<open>Transmitted\<close> the moment the datagram is handed to the network stack, whether the
  stack then sends it or reports an error.
  \<open>socket.send\<close> checks the port first and raises an exception, queueing nothing, when it
  is outside 1 to 65535; it raises one on a closed socket as well, and requests a bind of
  its own on a socket that has none. An accepted datagram waits in \<open>sk_queue\<close>.
  \<open>bind\<close> completes asynchronously; the waiting datagrams are taken up when the socket
  listens, after the callback given to \<open>bind\<close> has run (listeners run in the order of
  their registration, and \<open>bind\<close> registered its callback first). A bind that fails
  drops the waiting datagrams before the \<open>error\<close> listeners run. A datagram taken up has
  its destination resolved: a destination that does not resolve goes to the callback of
  the send and nothing reaches the network stack; otherwise the datagram is handed over.
  \<open>sk_inflight\<close> holds the datagrams handed over whose send callback is still to come.
  The sender never closes a socket on which datagrams are waiting.
\<close>

record socket =
  sk_open :: bool
  sk_bindState :: bindState
  sk_bindAddress :: "string option"
  sk_broadcast :: bool
  sk_queue :: "datagram list"
  sk_inflight :: "datagram list"
  sk_log :: "socketEvent list"

definition createSocket :: socket where
  "createSocket =
     \<lparr>sk_open = True, sk_bindState = Unbound, sk_bindAddress = None, sk_broadcast = False,
      sk_queue = [], sk_inflight = [], sk_log = [Created]\<rparr>"

definition socketBind :: "string option \<Rightarrow> socket \<Rightarrow> socket" where
  "socketBind addr s =
     s\<lparr>sk_bindState := Binding, sk_bindAddress := addr,
       sk_log := sk_log s @ [BindRequested addr]\<rparr>"

definition setBroadcast :: "bool \<Rightarrow> socket \<Rightarrow> socket" where
  "setBroadcast flag s = s\<lparr>sk_broadcast := flag, sk_log := sk_log s @ [BroadcastSet flag]\<rparr>"

definition transmit :: "datagram \<Rightarrow> socket \<Rightarrow> socket" where
  "transmit dg s =
     (if sk_open s
      then s\<lparr>sk_inflight := sk_inflight s @ [dg], sk_log := sk_log s @ [Transmitted dg]\<rparr>
      else s)"

definition validPort :: "int \<Rightarrow> bool" where
  "validPort p = (1 \<le> p \<and> p \<le> 65535)"

text \<open>The messages stand for those of Node's errors; no property depends on their text.\<close>

definition badPortMessage :: string where
  "badPortMessage = ''Port should be > 0 and < 65536''"

definition notRunningMessage :: string where
  "notRunningMessage = ''Not running''"

text \<open>\<open>socket.send\<close>: the exception it raises, if any, and the socket afterwards.\<close>

definition socketSend :: "datagram \<Rightarrow> socket \<Rightarrow> string option \<times> socket" where
  "socketSend dg s =
     (let s1 = s\<lparr>sk_log := sk_log s @ [SendRequested dg]\<rparr> in
      if \<not> validPort (dg_port dg) then (Some badPortMessage, s1)
      else if \<not> sk_open s1 then (Some notRunningMessage, s1)
      else (let s2 = (if sk_bindState s1 = Unbound then socketBind None s1 else s1)
            in (None, s2\<lparr>sk_queue := sk_queue s2 @ [dg]\<rparr>)))"

definition socketClose :: "socket \<Rightarrow> socket" where
  "socketClose s = s\<lparr>sk_open := False, sk_log := sk_log s @ [Closed]\<rparr>"

text \<open>A promise is settled once; a later \<open>resolve\<close> or \<open>reject\<close> changes nothing.\<close>

datatype promiseState = Pending | Resolved | Rejected string

record attempt =
  at_socket :: socket
  at_promise :: promiseState

definition resolve :: "attempt \<Rightarrow> attempt" where
  "resolve a = (if at_promise a = Pending then a\<lparr>at_promise := Resolved\<rparr> else a)"

definition reject :: "string \<Rightarrow> attempt \<Rightarrow> attempt" where
  "reject err a = (if at_promise a = Pending then a\<lparr>at_promise := Rejected err\<rparr> else a)"

text \<open>
  What the network does to one socket: the error message of a failed \<open>bind\<close> on the given
  local address, the error message for a destination address that does not resolve, and
  the error message of a failed send of the given datagram; \<open>None\<close> is success.
\<close>

record network =
  nw_bind :: "string option \<Rightarrow> string option"
  nw_lookup :: "string \<Rightarrow> string option"
  nw_send :: "datagram \<Rightarrow> string option"

subsection \<open>\<open>sendCustomMagicPacket\<close>\<close>

text \<open>The three callbacks the sender registers: lines 150 to 154, 159 to 164, 203 to 212.\<close>

definition onSocketError :: "string \<Rightarrow> attempt \<Rightarrow> attempt" where
  "onSocketError err a =
     (let a1 = reject err a in a1\<lparr>at_socket := socketClose (at_socket a1)\<rparr>)"

definition onBound :: "attempt \<Rightarrow> attempt" where
  "onBound a = a\<lparr>at_socket := setBroadcast True (at_socket a)\<rparr>"

definition onSent :: "string option \<Rightarrow> attempt \<Rightarrow> attempt" where
  "onSent err a =
     (let a1 = (case err of Some e \<Rightarrow> reject e a | None \<Rightarrow> resolve a)
      in a1\<lparr>at_socket := socketClose (at_socket a1)\<rparr>)"

text \<open>
  The body of the promise, lines 131 to 213, in the order of the source: the defaults, the
  socket, the bind request, then the validation of the address, the packet and the send.
  An exception that leaves the body rejects the promise and does nothing else, so the
  socket stays as it is: \<open>mac.replace\<close> (line 167) on a value that is not a string, and
  \<open>socket.send\<close> (line 197) when it refuses the port.
\<close>

definition notAFunctionMessage :: string where
  "notAFunctionMessage = ''mac.replace is not a function''"

definition defaultAddress :: "options \<Rightarrow> string" where
  "defaultAddress options =
     (if truthyString (opt_address options) then the (opt_address options)
      else ''255.255.255.255'')"

definition defaultPort :: "options \<Rightarrow> int" where
  "defaultPort options = (if truthyNumber (opt_port options) then the (opt_port options) else 9)"

definition defaultInterface :: "options \<Rightarrow> string option" where
  "defaultInterface options =
     (if truthyString (opt_interface options) then opt_interface options else None)"

definition executor :: "jsValue \<Rightarrow> options \<Rightarrow> attempt" where
  "executor mac options =
     (let address = defaultAddress options;
          port = defaultPort options;
          bindOptions = defaultInterface options;
          socket = socketBind bindOptions createSocket;
          a = \<lparr>at_socket = socket, at_promise = Pending\<rparr>
      in case mac of
           JString m \<Rightarrow>
             (let macAddress = stripSeparators m in
              if invalidMac macAddress
              then (let a1 = reject ''Invalid MAC address format'' a
                    in a1\<lparr>at_socket := socketClose (at_socket a1)\<rparr>)
              else (let magicPacket = createMagicPacket macAddress;
                        dg = \<lparr>dg_payload = magicPacket, dg_port = port, dg_address = address\<rparr>;
                        sent = socketSend dg (at_socket a);
                        a1 = a\<lparr>at_socket := snd sent\<rparr>
                    in case fst sent of
                         Some err \<Rightarrow> reject err a1
                       | None \<Rightarrow> a1))
         | _ \<Rightarrow> reject notAFunctionMessage a)"

text \<open>
  The event loop afterwards. The bind request completes: nothing happens on a socket closed
  in the meantime; a failure drops the waiting datagrams and raises the socket's \<open>error\<close>
  event; a success makes the socket listen and runs the bind callback. Then the waiting
  datagrams of a listening socket are taken up, each with the resolution of its
  destination. Then every datagram handed over completes and its callback runs.
\<close>

definition bindCompletes :: "network \<Rightarrow> attempt \<Rightarrow> attempt" where
  "bindCompletes nw a =
     (let s = at_socket a in
      if \<not> sk_open s \<or> sk_bindState s \<noteq> Binding then a
      else (case nw_bind nw (sk_bindAddress s) of
              Some err \<Rightarrow>
                onSocketError err (a\<lparr>at_socket := s\<lparr>sk_bindState := Unbound, sk_queue := []\<rparr>\<rparr>)
            | None \<Rightarrow> onBound (a\<lparr>at_socket := s\<lparr>sk_bindState := Bound\<rparr>\<rparr>)))"

definition lookupCompletes :: "network \<Rightarrow> datagram \<Rightarrow> attempt \<Rightarrow> attempt" where
  "lookupCompletes nw dg a =
     (case nw_lookup nw (dg_address dg) of
        Some err \<Rightarrow> onSent (Some err) a
      | None \<Rightarrow> a\<lparr>at_socket := transmit dg (at_socket a)\<rparr>)"

definition queueFlushes :: "network \<Rightarrow> attempt \<Rightarrow> attempt" where
  "queueFlushes nw a =
     (let s = at_socket a in
      if sk_bindState s \<noteq> Bound then a
      else fold (lookupCompletes nw) (sk_queue s) (a\<lparr>at_socket := s\<lparr>sk_queue := []\<rparr>\<rparr>))"

definition sendsComplete :: "network \<Rightarrow> attempt \<Rightarrow> attempt" where
  "sendsComplete nw a =
     fold (\<lambda>dg b. onSent (nw_send nw dg) b) (sk_inflight (at_socket a))
       (a\<lparr>at_socket := (at_socket a)\<lparr>sk_inflight := []\<rparr>\<rparr>)"

definition sendCustomMagicPacket :: "jsValue \<Rightarrow> options \<Rightarrow> network \<Rightarrow> attempt" where
  "sendCustomMagicPacket mac options nw =
     sendsComplete nw (queueFlushes nw (bindCompletes nw (executor mac options)))"

subsection \<open>The \<open>POST /wakeup\<close> handler\<close>

text \<open>
  The request body is the parsed JSON object; the handler reads five of its fields. The test
  page also sends \<open>broadcastAddr\<close>, which is part of the body here as well.
\<close>

record request =
  rq_macAddress :: "jsValue option"
  rq_port :: "int option"
  rq_interface :: "string option"
  rq_method :: "string option"
  rq_useAllInterfaces :: bool
  rq_broadcastAddr :: "string option"

text \<open>One entry of \<open>os.networkInterfaces()\<close>, with the fields the handler reads.\<close>

record interfaceInfo =
  if_address :: string
  if_family :: string
  if_internal :: bool

text \<open>
  What surrounds the handler: the two environment variables, the interfaces of the host by
  name, the outcome of the library's \<open>wol.wake\<close> for given arguments, and the network as
  the \<open>k\<close>-th socket of the request meets it. \<open>wol.wake\<close> calls back without an error,
  calls back with one, or raises an exception at once (as it does on an address it finds
  malformed).
\<close>

datatype wakeOutcome = WakeSent | WakeFailed string | WakeThrew string

record environment =
  env_SERVER_MAC :: "string option"
  env_WOL_BROADCAST_ADDR :: "string option"
  env_networkInterfaces :: "(string \<times> interfaceInfo list) list"
  env_wake :: "jsValue \<Rightarrow> options \<Rightarrow> wakeOutcome"
  env_network :: "nat \<Rightarrow> network"

record attemptResult =
  ar_success :: bool
  ar_error :: "string option"

record interfaceResult =
  ir_interface :: string
  ir_address :: string
  ir_success :: bool
  ir_error :: "string option"

datatype customResult = Single attemptResult | PerInterface "interfaceResult list"

record results =
  rs_library :: "attemptResult option"
  rs_custom :: "customResult option"

record response =
  rp_status :: nat
  rp_success :: bool
  rp_message :: string
  rp_details :: "results option"

text \<open>
  What a request does besides answering: the calls of the library and the calls of
  \<open>sendCustomMagicPacket\<close>, each with its arguments and, for the latter, its socket.
\<close>

record customCall =
  cc_mac :: jsValue
  cc_options :: options
  cc_attempt :: attempt

record effects =
  fx_libraryCalls :: "(jsValue \<times> options) list"
  fx_customCalls :: "customCall list"

text \<open>
  Lines 305 to 322: the loops over the interfaces. An element of \<open>sendPromises\<close> is the
  promise with its \<open>then\<close> and \<open>catch\<close>: the entry it resolves to, or \<open>None\<close> while the
  sender's promise is pending. The attempts do not share state, so they are run one after
  the other.
\<close>

definition thenCatch :: "string \<Rightarrow> string \<Rightarrow> promiseState \<Rightarrow> interfaceResult option" where
  "thenCatch name address p =
     (case p of
        Pending \<Rightarrow> None
      | Resolved \<Rightarrow>
          Some \<lparr>ir_interface = name, ir_address = address, ir_success = True, ir_error = None\<rparr>
      | Rejected err \<Rightarrow>
          Some \<lparr>ir_interface = name, ir_address = address, ir_success = False,
                ir_error = Some err\<rparr>)"

fun interfaceLoop ::
  "jsValue \<Rightarrow> options \<Rightarrow> (nat \<Rightarrow> network) \<Rightarrow> string \<Rightarrow> interfaceInfo list \<Rightarrow>
   (interfaceResult option \<times> customCall) list \<Rightarrow> (interfaceResult option \<times> customCall) list" where
  "interfaceLoop mac options net name [] sendPromises = sendPromises"
| "interfaceLoop mac options net name (iface # interfaces) sendPromises =
     (if if_family iface = ''IPv4'' \<and> \<not> if_internal iface
      then (let interfaceOptions = options\<lparr>opt_interface := Some (if_address iface)\<rparr>;
                a = sendCustomMagicPacket mac interfaceOptions (net (length sendPromises));
                call = \<lparr>cc_mac = mac, cc_options = interfaceOptions, cc_attempt = a\<rparr>
            in interfaceLoop mac options net name interfaces
                 (sendPromises @ [(thenCatch name (if_address iface) (at_promise a), call)]))
      else interfaceLoop mac options net name interfaces sendPromises)"

fun entriesLoop ::
  "jsValue \<Rightarrow> options \<Rightarrow> (nat \<Rightarrow> network) \<Rightarrow> (string \<times> interfaceInfo list) list \<Rightarrow>
   (interfaceResult option \<times> customCall) list \<Rightarrow> (interfaceResult option \<times> customCall) list" where
  "entriesLoop mac options net [] sendPromises = sendPromises"
| "entriesLoop mac options net ((name, interfaces) # entries) sendPromises =
     entriesLoop mac options net entries (interfaceLoop mac options net name interfaces sendPromises)"

text \<open>
  Lines 276 to 295 and 298 to 334: the two attempts. The library is called inside a
  promise inside \<open>try\<close>, so an exception it raises ends as a failed attempt like an error
  it calls back with. The custom attempt is \<open>None\<close> when an awaited promise stays pending,
  so that the handler never answers.
\<close>

definition useLibrary :: "request \<Rightarrow> bool" where
  "useLibrary req =
     (\<not> truthyString (rq_method req) \<or> rq_method req = Some ''library''
      \<or> rq_method req = Some ''both'')"

definition useCustom :: "request \<Rightarrow> bool" where
  "useCustom req =
     (\<not> truthyString (rq_method req) \<or> rq_method req = Some ''custom''
      \<or> rq_method req = Some ''both'')"

definition libraryAttempt ::
  "environment \<Rightarrow> request \<Rightarrow> jsValue \<Rightarrow> options \<Rightarrow>
   attemptResult option \<times> (jsValue \<times> options) list" where
  "libraryAttempt env req mac options =
     (if useLibrary req
      then (case env_wake env mac options of
              WakeSent \<Rightarrow> (Some \<lparr>ar_success = True, ar_error = None\<rparr>, [(mac, options)])
            | WakeFailed err \<Rightarrow>
                (Some \<lparr>ar_success = False, ar_error = Some err\<rparr>, [(mac, options)])
            | WakeThrew err \<Rightarrow>
                (Some \<lparr>ar_success = False, ar_error = Some err\<rparr>, [(mac, options)]))
      else (None, []))"

definition customAttempt ::
  "environment \<Rightarrow> request \<Rightarrow> jsValue \<Rightarrow> options \<Rightarrow>
   customResult option option \<times> customCall list" where
  "customAttempt env req mac options =
     (if useCustom req
      then (if rq_useAllInterfaces req
            then (let sendPromises =
                        entriesLoop mac options (env_network env) (env_networkInterfaces env) []
                  in (map_option (\<lambda>rs. Some (PerInterface rs)) (those (map fst sendPromises)),
                      map snd sendPromises))
            else (let a = sendCustomMagicPacket mac options (env_network env 0);
                      call = \<lparr>cc_mac = mac, cc_options = options, cc_attempt = a\<rparr>
                  in (case at_promise a of
                        Pending \<Rightarrow> (None, [call])
                      | Resolved \<Rightarrow>
                          (Some (Some (Single \<lparr>ar_success = True, ar_error = None\<rparr>)), [call])
                      | Rejected err \<Rightarrow>
                          (Some (Some (Single \<lparr>ar_success = False, ar_error = Some err\<rparr>)),
                           [call]))))
      else (Some None, []))"

text \<open>Lines 337 to 357: the aggregation and the answer.\<close>

definition anySuccess :: "results \<Rightarrow> bool" where
  "anySuccess rs =
     ((case rs_library rs of None \<Rightarrow> False | Some r \<Rightarrow> ar_success r)
      \<or> (case rs_custom rs of
            None \<Rightarrow> False
          | Some (PerInterface xs) \<Rightarrow> list_ex ir_success xs
          | Some (Single r) \<Rightarrow> ar_success r))"

definition respond :: "results \<Rightarrow> response" where
  "respond rs =
     (if anySuccess rs
      then \<lparr>rp_status = 200, rp_success = True,
            rp_message = ''Wake-on-LAN packet sent successfully'', rp_details = Some rs\<rparr>
      else \<lparr>rp_status = 500, rp_success = False,
            rp_message = ''Failed to send Wake-on-LAN packet'', rp_details = Some rs\<rparr>)"

definition resolveMac :: "environment \<Rightarrow> request \<Rightarrow> jsValue option" where
  "resolveMac env req =
     (if truthy (rq_macAddress req) then rq_macAddress req
      else map_option JString (env_SERVER_MAC env))"

definition baseOptions :: "environment \<Rightarrow> request \<Rightarrow> options" where
  "baseOptions env req =
     (let broadcastAddr =
            (if truthyString (env_WOL_BROADCAST_ADDR env) then the (env_WOL_BROADCAST_ADDR env)
             else ''255.255.255.255'');
          wolPort = (if truthyNumber (rq_port req) then the (rq_port req) else 9);
          options = \<lparr>opt_address = Some broadcastAddr, opt_port = Some wolPort,
                     opt_interface = None\<rparr>
      in if truthyString (rq_interface req) then options\<lparr>opt_interface := rq_interface req\<rparr>
         else options)"

definition wakeup :: "environment \<Rightarrow> request \<Rightarrow> response option \<times> effects" where
  "wakeup env req =
     (let mac = resolveMac env req in
      if \<not> truthy mac
      then (Some \<lparr>rp_status = 400, rp_success = False,
                  rp_message = ''MAC address not provided'', rp_details = None\<rparr>,
            \<lparr>fx_libraryCalls = [], fx_customCalls = []\<rparr>)
      else (let options = baseOptions env req;
                (library, libraryCalls) = libraryAttempt env req (the mac) options;
                (custom, customCalls) = customAttempt env req (the mac) options
            in (map_option (\<lambda>c. respond \<lparr>rs_library = library, rs_custom = c\<rparr>) custom,
                \<lparr>fx_libraryCalls = libraryCalls, fx_customCalls = customCalls\<rparr>)))"

text \<open>
  The earlier handler of \<open>index.js\<close>: the same resolution of the address, then the library
  alone, called without options and outside any \<open>try\<close>. An exception of the library leaves
  the handler, which then gives no answer of its own: the result is \<open>Inl\<close> with the message.
\<close>

definition wakeupIndex :: "environment \<Rightarrow> request \<Rightarrow> (string + response) \<times> jsValue list" where
  "wakeupIndex env req =
     (let mac = resolveMac env req in
      if \<not> truthy mac
      then (Inr \<lparr>rp_status = 400, rp_success = False,
                 rp_message = ''MAC address not provided'', rp_details = None\<rparr>, [])
      else (case env_wake env (the mac)
                   \<lparr>opt_address = None, opt_port = None, opt_interface = None\<rparr> of
              WakeThrew err \<Rightarrow> (Inl err, [the mac])
            | WakeFailed err \<Rightarrow>
                (Inr \<lparr>rp_status = 500, rp_success = False,
                      rp_message = ''Error sending Wake-on-LAN packet: '' @ err,
                      rp_details = None\<rparr>,
                 [the mac])
            | WakeSent \<Rightarrow>
                (Inr \<lparr>rp_status = 200, rp_success = True,
                      rp_message = ''Wake-on-LAN packet sent successfully'', rp_details = None\<rparr>,
                 [the mac])))"

subsection \<open>Notions the properties are stated with\<close>

definition hexDigits :: "char set" where
  "hexDigits = set ''0123456789abcdefABCDEF''"

text \<open>The datagram of lines 197 to 202 for a given address and given options.\<close>

definition packetFor :: "string \<Rightarrow> options \<Rightarrow> datagram" where
  "packetFor mac options =
     \<lparr>dg_payload = createMagicPacket (stripSeparators mac), dg_port = defaultPort options,
      dg_address = defaultAddress options\<rparr>"

fun requestedDatagrams :: "socketEvent list \<Rightarrow> datagram list" where
  "requestedDatagrams [] = []"
| "requestedDatagrams (SendRequested dg # es) = dg # requestedDatagrams es"
| "requestedDatagrams (e # es) = requestedDatagrams es"

fun transmittedDatagrams :: "socketEvent list \<Rightarrow> datagram list" where
  "transmittedDatagrams [] = []"
| "transmittedDatagrams (Transmitted dg # es) = dg # transmittedDatagrams es"
| "transmittedDatagrams (e # es) = transmittedDatagrams es"

text \<open>
  A log read from its start with the broadcast option in state \<open>b\<close>: every datagram leaves
  while the option is on.
\<close>

fun enabledBeforeTransmit :: "bool \<Rightarrow> socketEvent list \<Rightarrow> bool" where
  "enabledBeforeTransmit b [] = True"
| "enabledBeforeTransmit b (BroadcastSet flag # es) = enabledBeforeTransmit flag es"
| "enabledBeforeTransmit b (Transmitted dg # es) = (b \<and> enabledBeforeTransmit b es)"
| "enabledBeforeTransmit b (e # es) = enabledBeforeTransmit b es"

text \<open>The interface entries the dispatch is meant for, each with the name it is listed under.\<close>

definition qualifies :: "interfaceInfo \<Rightarrow> bool" where
  "qualifies iface = (if_family iface = ''IPv4'' \<and> \<not> if_internal iface)"

definition qualifying :: "(string \<times> interfaceInfo list) list \<Rightarrow> (string \<times> interfaceInfo) list" where
  "qualifying entries =
     concat (map (\<lambda>(name, interfaces). map (Pair name) (filter qualifies interfaces)) entries)"

text \<open>The success flags of all attempts a report carries.\<close>

definition attemptFlags :: "results option \<Rightarrow> bool list" where
  "attemptFlags details =
     (case details of
        None \<Rightarrow> []
      | Some rs \<Rightarrow>
          (case rs_library rs of None \<Rightarrow> [] | Some r \<Rightarrow> [ar_success r])
          @ (case rs_custom rs of
               None \<Rightarrow> []
             | Some (Single r) \<Rightarrow> [ar_success r]
             | Some (PerInterface xs) \<Rightarrow> map ir_success xs))"

text \<open>
  How one attempt ends, read off its address, its port and the answers of the network to
  that attempt alone: the error message, or \<open>None\<close> for a datagram that was sent.
\<close>

definition attemptOutcome :: "jsValue \<Rightarrow> options \<Rightarrow> network \<Rightarrow> string option" where
  "attemptOutcome mac options nw =
     (case mac of
        JString m \<Rightarrow>
          (if invalidMac (stripSeparators m) then Some ''Invalid MAC address format''
           else if \<not> validPort (defaultPort options) then Some badPortMessage
           else (case nw_bind nw (defaultInterface options) of
                   Some err \<Rightarrow> Some err
                 | None \<Rightarrow>
                     (case nw_lookup nw (defaultAddress options) of
                        Some err \<Rightarrow> Some err
                      | None \<Rightarrow> nw_send nw (packetFor m options))))
      | _ \<Rightarrow> Some notAFunctionMessage)"

text \<open>
  The report entry of the \<open>k\<close>-th qualifying interface: its name, its address, and the
  outcome of its own attempt.
\<close>

definition expectedEntry ::
  "jsValue \<Rightarrow> options \<Rightarrow> (nat \<Rightarrow> network) \<Rightarrow> nat \<times> string \<times> interfaceInfo \<Rightarrow> interfaceResult" where
  "expectedEntry mac options net kni =
     (case kni of (k, name, iface) \<Rightarrow>
        (let err = attemptOutcome mac (options\<lparr>opt_interface := Some (if_address iface)\<rparr>) (net k)
         in \<lparr>ir_interface = name, ir_address = if_address iface, ir_success = (err = None),
             ir_error = err\<rparr>))"

text \<open>One pass of the inner loop body for the \<open>k\<close>-th qualifying interface.\<close>

definition attemptFor ::
  "jsValue \<Rightarrow> options \<Rightarrow> (nat \<Rightarrow> network) \<Rightarrow> nat \<times> string \<times> interfaceInfo \<Rightarrow>
   interfaceResult option \<times> customCall" where
  "attemptFor mac options net kni =
     (case kni of (k, name, iface) \<Rightarrow>
        (let interfaceOptions = options\<lparr>opt_interface := Some (if_address iface)\<rparr>;
             a = sendCustomMagicPacket mac interfaceOptions (net k)
         in (thenCatch name (if_address iface) (at_promise a),
             \<lparr>cc_mac = mac, cc_options = interfaceOptions, cc_attempt = a\<rparr>)))"

text \<open>The broadcast address the environment configures.\<close>

definition configuredBroadcast :: "environment \<Rightarrow> string" where
  "configuredBroadcast env =
     (case env_WOL_BROADCAST_ADDR env of
        None \<Rightarrow> ''255.255.255.255''
      | Some a \<Rightarrow> (if a = [] then ''255.255.255.255'' else a))"

subsection \<open>Example inputs\<close>

definition noOptions :: options where
  "noOptions = \<lparr>opt_address = None, opt_port = None, opt_interface = None\<rparr>"

definition reachableNetwork :: network where
  "reachableNetwork =
     \<lparr>nw_bind = (\<lambda>addr. None), nw_lookup = (\<lambda>host. None), nw_send = (\<lambda>dg. None)\<rparr>"

definition unboundNetwork :: network where
  "unboundNetwork =
     \<lparr>nw_bind = (\<lambda>addr. Some ''bind EADDRNOTAVAIL''), nw_lookup = (\<lambda>host. None),
      nw_send = (\<lambda>dg. None)\<rparr>"

definition unresolvedNetwork :: network where
  "unresolvedNetwork =
     \<lparr>nw_bind = (\<lambda>addr. None), nw_lookup = (\<lambda>host. Some ''getaddrinfo ENOTFOUND''),
      nw_send = (\<lambda>dg. None)\<rparr>"

definition unreachableNetwork :: network where
  "unreachableNetwork =
     \<lparr>nw_bind = (\<lambda>addr. None), nw_lookup = (\<lambda>host. None),
      nw_send = (\<lambda>dg. Some ''send ENETUNREACH'')\<rparr>"

text \<open>
  A host with a loopback entry, an Ethernet interface with an IPv4 and an IPv6 entry, and a
  wireless interface; the library fails, the first socket of a request cannot be bound,
  the later ones send.
\<close>

definition exampleEnvironment :: environment where
  "exampleEnvironment =
     \<lparr>env_SERVER_MAC = None, env_WOL_BROADCAST_ADDR = Some ''192.168.1.255'',
      env_networkInterfaces =
        [(''lo'', [\<lparr>if_address = ''127.0.0.1'', if_family = ''IPv4'', if_internal = True\<rparr>]),
         (''eth0'', [\<lparr>if_address = ''192.168.1.5'', if_family = ''IPv4'', if_internal = False\<rparr>,
                    \<lparr>if_address = ''fe80::1'', if_family = ''IPv6'', if_internal = False\<rparr>]),
         (''wlan0'', [\<lparr>if_address = ''10.0.0.7'', if_family = ''IPv4'', if_internal = False\<rparr>])],
      env_wake = (\<lambda>mac options. WakeFailed ''library failure''),
      env_network = (\<lambda>k. if k = 0 then unboundNetwork else reachableNetwork)\<rparr>"

definition exampleRequest :: request where
  "exampleRequest =
     \<lparr>rq_macAddress = Some (JString ''AA-BB-CC-DD-EE-FF''), rq_port = None, rq_interface = None,
      rq_method = None, rq_useAllInterfaces = True, rq_broadcastAddr = Some ''10.9.8.7''\<rparr>"

text \<open>
  A host on which every socket binds and sends and the library sends; a request for the
  custom sender alone with a port beyond 65535, and one whose \<open>macAddress\<close> is a number.
\<close>

definition plainEnvironment :: environment where
  "plainEnvironment =
     \<lparr>env_SERVER_MAC = None, env_WOL_BROADCAST_ADDR = None, env_networkInterfaces = [],
      env_wake = (\<lambda>mac options. WakeSent), env_network = (\<lambda>k. reachableNetwork)\<rparr>"

definition largePortRequest :: request where
  "largePortRequest =
     \<lparr>rq_macAddress = Some (JString ''00:11:22:33:44:55''), rq_port = Some 70000,
      rq_interface = None, rq_method = Some ''custom'', rq_useAllInterfaces = False,
      rq_broadcastAddr = None\<rparr>"

definition numberMacRequest :: request where
  "numberMacRequest =
     \<lparr>rq_macAddress = Some (JNumber 12345), rq_port = None, rq_interface = None,
      rq_method = Some ''custom'', rq_useAllInterfaces = False, rq_broadcastAddr = None\<rparr>"

definition emptyRequest :: request where
  "emptyRequest =
     \<lparr>rq_macAddress = None, rq_port = None, rq_interface = None, rq_method = None,
      rq_useAllInterfaces = False, rq_broadcastAddr = None\<rparr>"

section \<open>Properties\<close>

subsection \<open>Hexadecimal digits and \<open>parseInt\<close>\<close>

lemma in_hexDigits_isHexDigit: "c \<in> hexDigits \<Longrightarrow> isHexDigit c"
  by (auto simp: hexDigits_def isHexDigit_def hexDigitValue_def)

lemma digit_codes:
  "(48::nat) \<le> n \<Longrightarrow> n \<le> 57 \<Longrightarrow> n \<in> {48, 49, 50, 51, 52, 53, 54, 55, 56, 57}"
  "(65::nat) \<le> n \<Longrightarrow> n \<le> 70 \<Longrightarrow> n \<in> {65, 66, 67, 68, 69, 70}"
  "(97::nat) \<le> n \<Longrightarrow> n \<le> 102 \<Longrightarrow> n \<in> {97, 98, 99, 100, 101, 102}"
  by (simp_all, arith+)

lemma isHexDigit_in_hexDigits:
  assumes "isHexDigit c"
  shows "c \<in> hexDigits"
proof -
  let ?n = "of_char c :: nat"
  from assms have "?n \<in> {48, 49, 50, 51, 52, 53, 54, 55, 56, 57} \<union> {65, 66, 67, 68, 69, 70}
      \<union> {97, 98, 99, 100, 101, 102}"
    using digit_codes[of ?n]
    by (simp add: isHexDigit_def hexDigitValue_def Let_def split: if_splits)
  also have "\<dots> = of_char ` set ''0123456789abcdefABCDEF''"
    by auto
  finally show ?thesis
    unfolding hexDigits_def by (simp only: inj_image_mem_iff[OF inj_of_char])
qed

lemma invalidMac_iff: "invalidMac s \<longleftrightarrow> \<not> (length s = 12 \<and> set s \<subseteq> hexDigits)"
  using in_hexDigits_isHexDigit isHexDigit_in_hexDigits
  by (auto simp: invalidMac_def testHex12_def list_all_iff)

lemma hex_not_white: "hexDigitValue c = Some x \<Longrightarrow> \<not> isWhiteSpace c"
  by (auto simp: hexDigitValue_def isWhiteSpace_def Let_def split: if_splits)

lemma hex_not_sign: "hexDigitValue c = Some x \<Longrightarrow> c \<noteq> CHR ''-'' \<and> c \<noteq> CHR ''+''"
  by (auto simp: hexDigitValue_def Let_def split: if_splits)

lemma hex_not_x: "hexDigitValue c = Some x \<Longrightarrow> c \<noteq> CHR ''x'' \<and> c \<noteq> CHR ''X''"
  by (auto simp: hexDigitValue_def Let_def split: if_splits)

lemma parseInt16_pair:
  assumes a: "hexDigitValue a = Some x" and b: "hexDigitValue b = Some y"
  shows "parseInt16 [a, b] = Some (int (16 * x + y))"
  using a b hex_not_white[OF a] hex_not_sign[OF a] hex_not_x[OF b]
  by (simp add: parseInt16_def isHexDigit_def)

lemma substring_pair:
  assumes le: "j * 2 + 2 \<le> length s"
  shows "substring s (j * 2) (j * 2 + 2) = [s ! (j * 2), s ! (j * 2 + 1)]"
proof -
  have "take 2 (drop (j * 2) s) = take (Suc (Suc 0)) (drop (j * 2) s)"
    by (simp add: numeral_2_eq_2)
  also have "\<dots> = [drop (j * 2) s ! 0, drop (j * 2) s ! 1]"
    using le by (simp add: take_Suc_conv_app_nth)
  also have "\<dots> = [s ! (j * 2), s ! (j * 2 + 1)]"
    using le by simp
  finally show ?thesis by (simp add: substring_def)
qed

lemma macByte_valid:
  assumes v: "\<not> invalidMac s" and j: "j < 6"
  shows "macByte s j =
    of_nat (16 * the (hexDigitValue (s ! (2 * j))) + the (hexDigitValue (s ! (2 * j + 1))))"
proof -
  from v have len: "length s = 12" and hex: "list_all isHexDigit s"
    by (simp_all add: invalidMac_def testHex12_def)
  from j len have i1: "j * 2 < length s" and i2: "j * 2 + 1 < length s" by simp_all
  obtain x where x: "hexDigitValue (s ! (j * 2)) = Some x"
    using hex i1 by (auto simp: isHexDigit_def list_all_length)
  obtain y where y: "hexDigitValue (s ! (j * 2 + 1)) = Some y"
    using hex i2 by (auto simp: isHexDigit_def list_all_length)
  have "substring s (j * 2) (j * 2 + 2) = [s ! (j * 2), s ! (j * 2 + 1)]"
    using j len by (intro substring_pair) simp
  then have "macByte s j = toUint8 (Some (int (16 * x + y)))"
    unfolding macByte_def by (simp only: parseInt16_pair[OF x y])
  then show ?thesis using x y by (simp add: toUint8_def mult.commute)
qed

lemma macBytes_valid: "\<not> invalidMac s \<Longrightarrow> map (macByte s) [0..<6] = addressBytes s"
  unfolding addressBytes_def by (rule map_cong[OF refl]) (simp add: macByte_valid)

subsection \<open>The loops that fill the buffer\<close>

lemma fold_fill:
  "n \<le> length b \<Longrightarrow> fold (\<lambda>i b. b[i := v]) [0..<n] b = replicate n v @ drop n b"
proof (induction n)
  case 0
  then show ?case by simp
next
  case (Suc n)
  then show ?case
    by (simp add: list_update_append replicate_append_same upd_conv_take_nth_drop
        flip: Cons_nth_drop_Suc)
qed

lemma fold_block:
  "off + m \<le> length b \<Longrightarrow>
   fold (\<lambda>j b. b[off + j := g j]) [0..<m] b = take off b @ map g [0..<m] @ drop (off + m) b"
proof (induction m)
  case 0
  then show ?case by simp
next
  case (Suc m)
  then have lt: "off + m < length b" by simp
  have d: "drop (off + m) b = b ! (off + m) # drop (Suc (off + m)) b"
    using lt by (simp add: Cons_nth_drop_Suc)
  have "fold (\<lambda>j b. b[off + j := g j]) [0..<Suc m] b
        = (take off b @ map g [0..<m] @ drop (off + m) b)[off + m := g m]"
    using Suc by simp
  also have "\<dots> = take off b @ map g [0..<m] @ (drop (off + m) b)[0 := g m]"
    using lt by (simp add: list_update_append min_def)
  also have "\<dots> = take off b @ map g [0..<Suc m] @ drop (off + Suc m) b"
    by (subst d) simp
  finally show ?case .
qed

lemma concat_replicate_snoc: "concat (replicate n xs) @ xs = concat (replicate (Suc n) xs)"
  by (induction n) simp_all

lemma fold_blocks:
  "6 + n * 6 \<le> length b \<Longrightarrow>
   fold (\<lambda>i b. fold (\<lambda>j b. b[6 + i * 6 + j := g j]) [0..<6] b) [0..<n] b
     = take 6 b @ concat (replicate n (map g [0..<6])) @ drop (6 + n * 6) b"
proof (induction n)
  case 0
  then show ?case by simp
next
  case (Suc n)
  let ?blk = "map g [0..<6]"
  let ?cur = "take 6 b @ concat (replicate n ?blk) @ drop (6 + n * 6) b"
  have len: "length ?cur = length b"
    using Suc.prems by (simp add: length_concat sum_list_replicate)
  have tk: "take (6 + n * 6) ?cur = take 6 b @ concat (replicate n ?blk)"
    using Suc.prems by (simp add: length_concat sum_list_replicate)
  have dr: "drop (6 + n * 6 + 6) ?cur = drop (6 + Suc n * 6) b"
    using Suc.prems by (simp add: length_concat sum_list_replicate add.commute)
  have "fold (\<lambda>i b. fold (\<lambda>j b. b[6 + i * 6 + j := g j]) [0..<6] b) [0..<Suc n] b
        = fold (\<lambda>j b. b[(6 + n * 6) + j := g j]) [0..<6] ?cur"
    using Suc by simp
  also have "\<dots> = take (6 + n * 6) ?cur @ ?blk @ drop (6 + n * 6 + 6) ?cur"
    using Suc.prems len by (intro fold_block) simp
  also have "\<dots> = take 6 b @ concat (replicate (Suc n) ?blk) @ drop (6 + Suc n * 6) b"
    unfolding tk dr by (simp add: concat_replicate_snoc del: replicate_Suc upt_Suc)
  finally show ?case .
qed

lemma fillHeader_eq: "6 \<le> length b \<Longrightarrow> fillHeader b = replicate 6 0xFF @ drop 6 b"
  unfolding fillHeader_def by (rule fold_fill)

lemma fillRepetitions_eq:
  "6 + 16 * 6 \<le> length b \<Longrightarrow>
   fillRepetitions s b =
     take 6 b @ concat (replicate 16 (map (macByte s) [0..<6])) @ drop (6 + 16 * 6) b"
  unfolding fillRepetitions_def fillRepetition_def by (rule fold_blocks)

lemma createMagicPacket_eq:
  "createMagicPacket s = replicate 6 0xFF @ concat (replicate 16 (map (macByte s) [0..<6]))"
proof -
  have "fillHeader (replicate 102 0) = replicate 6 0xFF @ replicate 96 (0::byte)"
    by (simp add: fillHeader_eq)
  then show ?thesis
    unfolding createMagicPacket_def by (simp add: fillRepetitions_eq)
qed

subsection \<open>The paths of one send attempt\<close>

lemmas socket_defs = createSocket_def socketBind_def setBroadcast_def transmit_def socketSend_def
  socketClose_def resolve_def reject_def onSocketError_def onBound_def onSent_def
  bindCompletes_def lookupCompletes_def queueFlushes_def sendsComplete_def

lemma executor_invalid:
  "invalidMac (stripSeparators m) \<Longrightarrow>
   executor (JString m) options =
     \<lparr>at_socket = \<lparr>sk_open = False, sk_bindState = Binding,
        sk_bindAddress = defaultInterface options, sk_broadcast = False, sk_queue = [],
        sk_inflight = [], sk_log = [Created, BindRequested (defaultInterface options), Closed]\<rparr>,
      at_promise = Rejected ''Invalid MAC address format''\<rparr>"
  by (simp add: executor_def socket_defs Let_def)

lemma executor_valid:
  "\<not> invalidMac (stripSeparators m) \<Longrightarrow> validPort (defaultPort options) \<Longrightarrow>
   executor (JString m) options =
     \<lparr>at_socket = \<lparr>sk_open = True, sk_bindState = Binding,
        sk_bindAddress = defaultInterface options, sk_broadcast = False,
        sk_queue = [packetFor m options],
        sk_inflight = [], sk_log = [Created, BindRequested (defaultInterface options),
          SendRequested (packetFor m options)]\<rparr>,
      at_promise = Pending\<rparr>"
  by (simp add: executor_def socket_defs Let_def packetFor_def)

lemma executor_bad_port:
  "\<not> invalidMac (stripSeparators m) \<Longrightarrow> \<not> validPort (defaultPort options) \<Longrightarrow>
   executor (JString m) options =
     \<lparr>at_socket = \<lparr>sk_open = True, sk_bindState = Binding,
        sk_bindAddress = defaultInterface options, sk_broadcast = False, sk_queue = [],
        sk_inflight = [], sk_log = [Created, BindRequested (defaultInterface options),
          SendRequested (packetFor m options)]\<rparr>,
      at_promise = Rejected badPortMessage\<rparr>"
  by (simp add: executor_def socket_defs Let_def packetFor_def)

lemma executor_not_string:
  "\<forall>m. mac \<noteq> JString m \<Longrightarrow>
   executor mac options =
     \<lparr>at_socket = \<lparr>sk_open = True, sk_bindState = Binding,
        sk_bindAddress = defaultInterface options, sk_broadcast = False, sk_queue = [],
        sk_inflight = [], sk_log = [Created, BindRequested (defaultInterface options)]\<rparr>,
      at_promise = Rejected notAFunctionMessage\<rparr>"
  by (cases mac) (simp_all add: executor_def socket_defs Let_def)

lemma send_invalid:
  "invalidMac (stripSeparators m) \<Longrightarrow>
   sendCustomMagicPacket (JString m) options nw =
     \<lparr>at_socket = \<lparr>sk_open = False, sk_bindState = Binding,
        sk_bindAddress = defaultInterface options, sk_broadcast = False, sk_queue = [],
        sk_inflight = [], sk_log = [Created, BindRequested (defaultInterface options), Closed]\<rparr>,
      at_promise = Rejected ''Invalid MAC address format''\<rparr>"
  by (simp add: sendCustomMagicPacket_def executor_invalid bindCompletes_def queueFlushes_def
      sendsComplete_def)

lemma send_bind_failed:
  "\<not> invalidMac (stripSeparators m) \<Longrightarrow> validPort (defaultPort options) \<Longrightarrow>
   nw_bind nw (defaultInterface options) = Some err \<Longrightarrow>
   sendCustomMagicPacket (JString m) options nw =
     \<lparr>at_socket = \<lparr>sk_open = False, sk_bindState = Unbound,
        sk_bindAddress = defaultInterface options, sk_broadcast = False, sk_queue = [],
        sk_inflight = [], sk_log = [Created, BindRequested (defaultInterface options),
          SendRequested (packetFor m options), Closed]\<rparr>,
      at_promise = Rejected err\<rparr>"
  by (simp add: sendCustomMagicPacket_def executor_valid socket_defs Let_def)

lemma send_lookup_failed:
  "\<not> invalidMac (stripSeparators m) \<Longrightarrow> validPort (defaultPort options) \<Longrightarrow>
   nw_bind nw (defaultInterface options) = None \<Longrightarrow>
   nw_lookup nw (defaultAddress options) = Some err \<Longrightarrow>
   sendCustomMagicPacket (JString m) options nw =
     \<lparr>at_socket = \<lparr>sk_open = False, sk_bindState = Bound,
        sk_bindAddress = defaultInterface options, sk_broadcast = True, sk_queue = [],
        sk_inflight = [], sk_log = [Created, BindRequested (defaultInterface options),
          SendRequested (packetFor m options), BroadcastSet True, Closed]\<rparr>,
      at_promise = Rejected err\<rparr>"
  by (simp add: sendCustomMagicPacket_def executor_valid socket_defs Let_def packetFor_def)

lemma send_bound:
  "\<not> invalidMac (stripSeparators m) \<Longrightarrow> validPort (defaultPort options) \<Longrightarrow>
   nw_bind nw (defaultInterface options) = None \<Longrightarrow>
   nw_lookup nw (defaultAddress options) = None \<Longrightarrow>
   sendCustomMagicPacket (JString m) options nw =
     \<lparr>at_socket = \<lparr>sk_open = False, sk_bindState = Bound,
        sk_bindAddress = defaultInterface options, sk_broadcast = True, sk_queue = [],
        sk_inflight = [], sk_log = [Created, BindRequested (defaultInterface options),
          SendRequested (packetFor m options), BroadcastSet True,
          Transmitted (packetFor m options), Closed]\<rparr>,
      at_promise = (case nw_send nw (packetFor m options) of
                      None \<Rightarrow> Resolved | Some err \<Rightarrow> Rejected err)\<rparr>"
  by (simp add: sendCustomMagicPacket_def executor_valid socket_defs Let_def packetFor_def
      split: option.splits)

lemma send_bad_port_bind_failed:
  "\<not> invalidMac (stripSeparators m) \<Longrightarrow> \<not> validPort (defaultPort options) \<Longrightarrow>
   nw_bind nw (defaultInterface options) = Some err \<Longrightarrow>
   sendCustomMagicPacket (JString m) options nw =
     \<lparr>at_socket = \<lparr>sk_open = False, sk_bindState = Unbound,
        sk_bindAddress = defaultInterface options, sk_broadcast = False, sk_queue = [],
        sk_inflight = [], sk_log = [Created, BindRequested (defaultInterface options),
          SendRequested (packetFor m options), Closed]\<rparr>,
      at_promise = Rejected badPortMessage\<rparr>"
  by (simp add: sendCustomMagicPacket_def executor_bad_port socket_defs Let_def)

lemma send_bad_port_bound:
  "\<not> invalidMac (stripSeparators m) \<Longrightarrow> \<not> validPort (defaultPort options) \<Longrightarrow>
   nw_bind nw (defaultInterface options) = None \<Longrightarrow>
   sendCustomMagicPacket (JString m) options nw =
     \<lparr>at_socket = \<lparr>sk_open = True, sk_bindState = Bound,
        sk_bindAddress = defaultInterface options, sk_broadcast = True, sk_queue = [],
        sk_inflight = [], sk_log = [Created, BindRequested (defaultInterface options),
          SendRequested (packetFor m options), BroadcastSet True]\<rparr>,
      at_promise = Rejected badPortMessage\<rparr>"
  by (simp add: sendCustomMagicPacket_def executor_bad_port socket_defs Let_def)

lemma send_not_string_bind_failed:
  "\<forall>m. mac \<noteq> JString m \<Longrightarrow> nw_bind nw (defaultInterface options) = Some err \<Longrightarrow>
   sendCustomMagicPacket mac options nw =
     \<lparr>at_socket = \<lparr>sk_open = False, sk_bindState = Unbound,
        sk_bindAddress = defaultInterface options, sk_broadcast = False, sk_queue = [],
        sk_inflight = [], sk_log = [Created, BindRequested (defaultInterface options), Closed]\<rparr>,
      at_promise = Rejected notAFunctionMessage\<rparr>"
  by (simp add: sendCustomMagicPacket_def executor_not_string socket_defs Let_def)

lemma send_not_string_bound:
  "\<forall>m. mac \<noteq> JString m \<Longrightarrow> nw_bind nw (defaultInterface options) = None \<Longrightarrow>
   sendCustomMagicPacket mac options nw =
     \<lparr>at_socket = \<lparr>sk_open = True, sk_bindState = Bound,
        sk_bindAddress = defaultInterface options, sk_broadcast = True, sk_queue = [],
        sk_inflight = [],
        sk_log = [Created, BindRequested (defaultInterface options), BroadcastSet True]\<rparr>,
      at_promise = Rejected notAFunctionMessage\<rparr>"
  by (simp add: sendCustomMagicPacket_def executor_not_string socket_defs Let_def)

lemmas send_paths = send_invalid send_bind_failed send_lookup_failed send_bound
  send_bad_port_bind_failed send_bad_port_bound send_not_string_bind_failed send_not_string_bound

lemma send_cases:
  obtains (invalid) m where "mac = JString m" "invalidMac (stripSeparators m)"
  | (bad_port_bind_failed) m err where "mac = JString m" "\<not> invalidMac (stripSeparators m)"
      "\<not> validPort (defaultPort options)" "nw_bind nw (defaultInterface options) = Some err"
  | (bad_port_bound) m where "mac = JString m" "\<not> invalidMac (stripSeparators m)"
      "\<not> validPort (defaultPort options)" "nw_bind nw (defaultInterface options) = None"
  | (bind_failed) m err where "mac = JString m" "\<not> invalidMac (stripSeparators m)"
      "validPort (defaultPort options)" "nw_bind nw (defaultInterface options) = Some err"
  | (lookup_failed) m err where "mac = JString m" "\<not> invalidMac (stripSeparators m)"
      "validPort (defaultPort options)" "nw_bind nw (defaultInterface options) = None"
      "nw_lookup nw (defaultAddress options) = Some err"
  | (handed_over) m where "mac = JString m" "\<not> invalidMac (stripSeparators m)"
      "validPort (defaultPort options)" "nw_bind nw (defaultInterface options) = None"
      "nw_lookup nw (defaultAddress options) = None"
  | (not_string_bind_failed) err where "\<forall>m. mac \<noteq> JString m"
      "nw_bind nw (defaultInterface options) = Some err"
  | (not_string_bound) "\<forall>m. mac \<noteq> JString m" "nw_bind nw (defaultInterface options) = None"
proof (cases "\<exists>m. mac = JString m")
  case False
  then show ?thesis
    using not_string_bind_failed not_string_bound
    by (cases "nw_bind nw (defaultInterface options)") auto
next
  case True
  then obtain m where m: "mac = JString m" by blast
  show ?thesis
  proof (cases "invalidMac (stripSeparators m)")
    case True
    with m show ?thesis by (rule invalid)
  next
    case valid: False
    show ?thesis
    proof (cases "validPort (defaultPort options)")
      case False
      with m valid show ?thesis
        using bad_port_bind_failed bad_port_bound
        by (cases "nw_bind nw (defaultInterface options)") auto
    next
      case port: True
      show ?thesis
      proof (cases "nw_bind nw (defaultInterface options)")
        case (Some err)
        with m valid port show ?thesis by (rule bind_failed)
      next
        case None
        with m valid port show ?thesis
          using lookup_failed handed_over
          by (cases "nw_lookup nw (defaultAddress options)") auto
      qed
    qed
  qed
qed

lemma send_settles: "at_promise (sendCustomMagicPacket mac options nw) \<noteq> Pending"
  by (rule send_cases[where mac=mac and nw=nw and options=options])
     (simp_all add: send_paths split: option.splits)

lemma requested_valid:
  "\<not> invalidMac (stripSeparators m) \<Longrightarrow>
   requestedDatagrams (sk_log (at_socket (sendCustomMagicPacket (JString m) options nw)))
     = [packetFor m options]"
  by (rule send_cases[where mac="JString m" and nw=nw and options=options])
     (simp_all add: send_paths)

lemma requested_destination:
  "list_all (\<lambda>dg. dg_address dg = defaultAddress options \<and> dg_port dg = defaultPort options)
     (requestedDatagrams (sk_log (at_socket (sendCustomMagicPacket mac options nw))))"
  by (rule send_cases[where mac=mac and nw=nw and options=options])
     (simp_all add: send_paths packetFor_def)

lemma transmitted_destination:
  "list_all (\<lambda>dg. dg_address dg = defaultAddress options \<and> dg_port dg = defaultPort options)
     (transmittedDatagrams (sk_log (at_socket (sendCustomMagicPacket mac options nw))))"
  by (rule send_cases[where mac=mac and nw=nw and options=options])
     (simp_all add: send_paths packetFor_def)

lemma defaults_interface_update:
  "defaultAddress (options\<lparr>opt_interface := x\<rparr>) = defaultAddress options"
  "defaultPort (options\<lparr>opt_interface := x\<rparr>) = defaultPort options"
  by (simp_all add: defaultAddress_def defaultPort_def)

text \<open>
  The socket is closed at the end of every path but two: the exception of \<open>mac.replace\<close>
  and the exception of \<open>socket.send\<close>, each followed by a bind that succeeds.
\<close>

lemma send_closed:
  assumes "mac = JString m"
    and "invalidMac (stripSeparators m) \<or> validPort (defaultPort options)"
  shows "\<not> sk_open (at_socket (sendCustomMagicPacket mac options nw))
   \<and> count_list (sk_log (at_socket (sendCustomMagicPacket mac options nw))) Created = 1
   \<and> count_list (sk_log (at_socket (sendCustomMagicPacket mac options nw))) Closed = 1
   \<and> last (sk_log (at_socket (sendCustomMagicPacket mac options nw))) = Closed"
  by (rule send_cases[where mac=mac and nw=nw and options=options])
     (use assms in \<open>simp_all add: send_paths\<close>)

lemma send_closed_bind_failed:
  assumes "nw_bind nw (defaultInterface options) = Some err"
  shows "\<not> sk_open (at_socket (sendCustomMagicPacket mac options nw))"
  by (rule send_cases[where mac=mac and nw=nw and options=options])
     (use assms in \<open>simp_all add: send_paths\<close>)

lemma promise_outcome:
  "at_promise (sendCustomMagicPacket mac options nw) =
     (case attemptOutcome mac options nw of None \<Rightarrow> Resolved | Some err \<Rightarrow> Rejected err)"
proof (rule send_cases[where mac=mac and nw=nw and options=options])
  fix err
  assume "\<forall>m. mac \<noteq> JString m" and "nw_bind nw (defaultInterface options) = Some err"
  then show ?thesis
    by (cases mac) (simp_all add: send_not_string_bind_failed attemptOutcome_def)
next
  assume "\<forall>m. mac \<noteq> JString m" and "nw_bind nw (defaultInterface options) = None"
  then show ?thesis
    by (cases mac) (simp_all add: send_not_string_bound attemptOutcome_def)
qed (simp_all add: send_paths attemptOutcome_def)

subsection \<open>The loops of the dispatch and the two attempts of the handler\<close>

lemma interfaceLoop_eq:
  "interfaceLoop mac options net name ifs sp =
     sp @ map (attemptFor mac options net)
            (enumerate (length sp) (map (Pair name) (filter qualifies ifs)))"
proof (induction ifs arbitrary: sp)
  case Nil
  then show ?case by simp
next
  case (Cons iface ifs)
  then show ?case
    by (simp add: qualifies_def attemptFor_def Let_def)
qed

lemma entriesLoop_eq:
  "entriesLoop mac options net entries sp =
     sp @ map (attemptFor mac options net) (enumerate (length sp) (qualifying entries))"
proof (induction entries arbitrary: sp)
  case Nil
  then show ?case by (simp add: qualifying_def)
next
  case (Cons e entries)
  obtain name ifs where e: "e = (name, ifs)" by (cases e)
  have q: "qualifying ((name, ifs) # entries)
      = map (Pair name) (filter qualifies ifs) @ qualifying entries"
    by (simp add: qualifying_def)
  show ?case
    unfolding e q by (simp add: Cons.IH interfaceLoop_eq enumerate_append_eq)
qed

lemma fst_attemptFor:
  "fst (attemptFor mac options net kni) = Some (expectedEntry mac options net kni)"
  by (cases kni)
     (simp add: attemptFor_def expectedEntry_def Let_def thenCatch_def promise_outcome
        split: option.splits)

lemma those_map_Some: "those (map (\<lambda>x. Some (f x)) xs) = Some (map f xs)"
  by (induction xs) simp_all

lemma map_enumerate_snd: "map (\<lambda>kx. f (snd kx)) (enumerate n xs) = map f xs"
  by (induction xs arbitrary: n) simp_all

lemma customAttempt_all:
  assumes "useCustom req" and "rq_useAllInterfaces req"
  shows "customAttempt env req mac options =
    (Some (Some (PerInterface (map (expectedEntry mac options (env_network env))
        (enumerate 0 (qualifying (env_networkInterfaces env)))))),
     map (\<lambda>kni. snd (attemptFor mac options (env_network env) kni))
        (enumerate 0 (qualifying (env_networkInterfaces env))))"
  using assms
  by (simp add: customAttempt_def entriesLoop_eq Let_def comp_def fst_attemptFor those_map_Some)

lemma customAttempt_all_calls:
  assumes "useCustom req" and "rq_useAllInterfaces req"
  shows "snd (customAttempt env req mac options) =
    map (\<lambda>kni. \<lparr>cc_mac = mac,
                 cc_options = options\<lparr>opt_interface := Some (if_address (snd (snd kni)))\<rparr>,
                 cc_attempt = sendCustomMagicPacket mac
                    (options\<lparr>opt_interface := Some (if_address (snd (snd kni)))\<rparr>)
                    (env_network env (fst kni))\<rparr>)
      (enumerate 0 (qualifying (env_networkInterfaces env)))"
  by (simp add: customAttempt_all[OF assms] attemptFor_def Let_def split_beta)

lemma customAttempt_single:
  assumes "useCustom req" and "\<not> rq_useAllInterfaces req"
  shows "customAttempt env req mac options =
    (Some (Some (Single \<lparr>ar_success = (attemptOutcome mac options (env_network env 0) = None),
                         ar_error = attemptOutcome mac options (env_network env 0)\<rparr>)),
     [\<lparr>cc_mac = mac, cc_options = options,
       cc_attempt = sendCustomMagicPacket mac options (env_network env 0)\<rparr>])"
  using assms
  by (simp add: customAttempt_def Let_def promise_outcome split: option.splits)

lemma customAttempt_unused:
  "\<not> useCustom req \<Longrightarrow> customAttempt env req mac options = (Some None, [])"
  by (simp add: customAttempt_def)

lemma customAttempt_completes: "\<exists>c. fst (customAttempt env req mac options) = Some c"
  by (cases "useCustom req"; cases "rq_useAllInterfaces req")
     (simp_all add: customAttempt_all customAttempt_single customAttempt_unused)

lemma calls_are_sends:
  assumes "c \<in> set (snd (customAttempt env req mac options))"
  shows "\<exists>k. cc_attempt c = sendCustomMagicPacket mac (cc_options c) (env_network env k)
           \<and> defaultAddress (cc_options c) = defaultAddress options
           \<and> opt_address (cc_options c) = opt_address options"
proof (cases "useCustom req")
  case False
  with assms show ?thesis by (simp add: customAttempt_unused)
next
  case True
  show ?thesis
  proof (cases "rq_useAllInterfaces req")
    case False
    with True assms show ?thesis by (auto simp: customAttempt_single)
  next
    case all: True
    from assms show ?thesis
      unfolding customAttempt_all_calls[OF True all]
      by (auto simp: defaults_interface_update)
  qed
qed

lemma wakeup_calls:
  assumes "c \<in> set (fx_customCalls (snd (wakeup env req)))"
  shows "c \<in> set (snd (customAttempt env req (the (resolveMac env req)) (baseOptions env req)))"
  using assms by (simp add: wakeup_def Let_def split_beta split: if_splits)

lemma baseOptions_address:
  "opt_address (baseOptions env req) = Some (configuredBroadcast env)"
  "defaultAddress (baseOptions env req) = configuredBroadcast env"
  by (auto simp: baseOptions_def configuredBroadcast_def defaultAddress_def truthyString_def Let_def
      split: option.splits)

lemma broadcastAddr_unread:
  "resolveMac env (req\<lparr>rq_broadcastAddr := b\<rparr>) = resolveMac env req"
  "baseOptions env (req\<lparr>rq_broadcastAddr := b\<rparr>) = baseOptions env req"
  "libraryAttempt env (req\<lparr>rq_broadcastAddr := b\<rparr>) = libraryAttempt env req"
  "customAttempt env (req\<lparr>rq_broadcastAddr := b\<rparr>) = customAttempt env req"
  by (simp_all add: resolveMac_def baseOptions_def libraryAttempt_def customAttempt_def
      useLibrary_def useCustom_def fun_eq_iff Let_def cong: if_cong)

lemma anySuccess_flags: "anySuccess rs = (True \<in> set (attemptFlags (Some rs)))"
  by (auto simp: anySuccess_def attemptFlags_def list_ex_iff
      split: option.splits customResult.splits)

subsection \<open>The example request on the example host\<close>

lemma ex_q: "qualifying (env_networkInterfaces exampleEnvironment) =
  [(''eth0'', \<lparr>if_address = ''192.168.1.5'', if_family = ''IPv4'', if_internal = False\<rparr>),
   (''wlan0'', \<lparr>if_address = ''10.0.0.7'', if_family = ''IPv4'', if_internal = False\<rparr>)]"
  by (simp add: exampleEnvironment_def qualifying_def qualifies_def)

lemma ex_valid: "\<not> invalidMac (stripSeparators ''AA-BB-CC-DD-EE-FF'')"
  by (simp add: invalidMac_iff stripSeparators_def hexDigits_def)

lemma ex_mac:
  "resolveMac exampleEnvironment exampleRequest = Some (JString ''AA-BB-CC-DD-EE-FF'')"
  by (simp add: resolveMac_def exampleRequest_def truthy_def)

lemma ex_port:
  "validPort (defaultPort noOptions)"
  "validPort (defaultPort (baseOptions exampleEnvironment exampleRequest))"
  by (simp_all add: validPort_def defaultPort_def noOptions_def baseOptions_def truthyNumber_def
      exampleRequest_def Let_def)

lemma ex_use:
  "useCustom exampleRequest" "useLibrary exampleRequest" "rq_useAllInterfaces exampleRequest"
  by (simp_all add: useCustom_def useLibrary_def exampleRequest_def truthyString_def)

lemma ex_entries:
  "validPort (defaultPort options) \<Longrightarrow>
   map (expectedEntry (JString ''AA-BB-CC-DD-EE-FF'') options (env_network exampleEnvironment))
     (enumerate 0 (qualifying (env_networkInterfaces exampleEnvironment)))
   = [\<lparr>ir_interface = ''eth0'', ir_address = ''192.168.1.5'', ir_success = False,
       ir_error = Some ''bind EADDRNOTAVAIL''\<rparr>,
      \<lparr>ir_interface = ''wlan0'', ir_address = ''10.0.0.7'', ir_success = True, ir_error = None\<rparr>]"
  by (simp add: ex_q expectedEntry_def attemptOutcome_def ex_valid defaults_interface_update)
     (simp add: exampleEnvironment_def unboundNetwork_def reachableNetwork_def)

lemma ex_library:
  "libraryAttempt exampleEnvironment exampleRequest mac options
     = (Some \<lparr>ar_success = False, ar_error = Some ''library failure''\<rparr>, [(mac, options)])"
  by (simp add: libraryAttempt_def ex_use) (simp add: exampleEnvironment_def)

lemma ex_response:
  "fst (wakeup exampleEnvironment exampleRequest) =
     Some \<lparr>rp_status = 200, rp_success = True,
           rp_message = ''Wake-on-LAN packet sent successfully'',
           rp_details = Some
             \<lparr>rs_library = Some \<lparr>ar_success = False, ar_error = Some ''library failure''\<rparr>,
              rs_custom = Some (PerInterface
               [\<lparr>ir_interface = ''eth0'', ir_address = ''192.168.1.5'', ir_success = False,
                  ir_error = Some ''bind EADDRNOTAVAIL''\<rparr>,
                \<lparr>ir_interface = ''wlan0'', ir_address = ''10.0.0.7'', ir_success = True,
                  ir_error = None\<rparr>])\<rparr>\<rparr>"
  by (simp add: wakeup_def ex_mac truthy_def Let_def ex_library
      customAttempt_all[OF ex_use(1) ex_use(3)] ex_entries[OF ex_port(2)] respond_def
      anySuccess_def)

subsection \<open>The claims\<close>

text \<open>
  C1. For every hardware-address string that, after stripping the separators \<open>:\<close> and \<open>-\<close>,
  consists of exactly 12 hexadecimal digits of either case, the packet
  \<open>sendCustomMagicPacket\<close> builds and passes to \<open>socket.send\<close> is a buffer of 102 bytes
  whose first 6 bytes are \<open>0xFF\<close> and whose bytes 6 to 101 are the 6 decoded bytes of the
  address repeated 16 times.
\<close>

theorem magic_packet_layout:
  assumes "length (stripSeparators mac) = 12" and "set (stripSeparators mac) \<subseteq> hexDigits"
  shows "map dg_payload
           (requestedDatagrams
              (sk_log (at_socket (sendCustomMagicPacket (JString mac) options nw))))
         = [createMagicPacket (stripSeparators mac)]
       \<and> length (createMagicPacket (stripSeparators mac)) = 102
       \<and> take 6 (createMagicPacket (stripSeparators mac)) = replicate 6 0xFF
       \<and> drop 6 (createMagicPacket (stripSeparators mac))
           = concat (replicate 16 (addressBytes (stripSeparators mac)))
       \<and> length (addressBytes (stripSeparators mac)) = 6"
proof -
  let ?s = "stripSeparators mac"
  from assms have valid: "\<not> invalidMac ?s"
    by (simp add: invalidMac_iff)
  have pkt: "createMagicPacket ?s = replicate 6 0xFF @ concat (replicate 16 (addressBytes ?s))"
    by (simp only: createMagicPacket_eq macBytes_valid[OF valid])
  have six: "length (addressBytes ?s) = 6"
    by (simp add: addressBytes_def)
  have "length (createMagicPacket ?s) = 102"
    unfolding pkt by (simp add: length_concat sum_list_replicate six)
  moreover have "take 6 (createMagicPacket ?s) = replicate 6 0xFF"
    unfolding pkt by simp
  moreover have "drop 6 (createMagicPacket ?s) = concat (replicate 16 (addressBytes ?s))"
    unfolding pkt by simp
  moreover have "map dg_payload
      (requestedDatagrams (sk_log (at_socket (sendCustomMagicPacket (JString mac) options nw))))
      = [createMagicPacket ?s]"
    by (simp add: requested_valid[OF valid] packetFor_def)
  ultimately show ?thesis using six by blast
qed

theorem magic_packet_layout_witness:
  "length (stripSeparators ''AA-BB-CC-dd-ee-ff'') = 12
   \<and> set (stripSeparators ''AA-BB-CC-dd-ee-ff'') \<subseteq> hexDigits
   \<and> map dg_payload (requestedDatagrams
        (sk_log (at_socket
           (sendCustomMagicPacket (JString ''AA-BB-CC-dd-ee-ff'') noOptions reachableNetwork))))
      = [createMagicPacket ''AABBCCddeeff'']
   \<and> length (createMagicPacket ''AABBCCddeeff'') = 102
   \<and> take 6 (createMagicPacket ''AABBCCddeeff'') = replicate 6 0xFF
   \<and> drop 6 (createMagicPacket ''AABBCCddeeff'')
       = concat (replicate 16 [0xAA, 0xBB, 0xCC, 0xDD, 0xEE, 0xFF])
   \<and> addressBytes ''AABBCCddeeff'' = [0xAA, 0xBB, 0xCC, 0xDD, 0xEE, 0xFF]"
proof -
  have s: "stripSeparators ''AA-BB-CC-dd-ee-ff'' = ''AABBCCddeeff''"
    by (simp add: stripSeparators_def)
  have h1: "length (stripSeparators ''AA-BB-CC-dd-ee-ff'') = 12"
    by (simp add: s)
  have h2: "set (stripSeparators ''AA-BB-CC-dd-ee-ff'') \<subseteq> hexDigits"
    by (simp add: s hexDigits_def)
  have b: "addressBytes ''AABBCCddeeff'' = [0xAA, 0xBB, 0xCC, 0xDD, 0xEE, 0xFF]"
    by (simp add: addressBytes_def hexDigitValue_def upt_rec)
  show ?thesis
    using magic_packet_layout[OF h1 h2, of noOptions reachableNetwork] h1 h2 b
    by (simp add: s)
qed

text \<open>
  C2. Every report of the \<open>/wakeup\<close> handler has its overall success flag true exactly when
  at least one of the attempts it aggregates (the library attempt, the single custom
  attempt, or one of the per-interface custom attempts) is a success; and the handler
  always answers.
\<close>

theorem success_iff_some_attempt_succeeded:
  "\<exists>r. fst (wakeup env req) = Some r
       \<and> rp_success r = (True \<in> set (attemptFlags (rp_details r)))"
proof (cases "truthy (resolveMac env req)")
  case False
  then show ?thesis
    by (simp add: wakeup_def attemptFlags_def)
next
  case True
  obtain c where c:
    "fst (customAttempt env req (the (resolveMac env req)) (baseOptions env req)) = Some c"
    using customAttempt_completes by blast
  let ?rs = "\<lparr>rs_library =
                 fst (libraryAttempt env req (the (resolveMac env req)) (baseOptions env req)),
              rs_custom = c\<rparr>"
  have "fst (wakeup env req) = Some (respond ?rs)"
    using True c by (simp add: wakeup_def Let_def split_beta)
  moreover have "rp_success (respond ?rs) = (True \<in> set (attemptFlags (rp_details (respond ?rs))))"
    by (simp add: respond_def anySuccess_flags[symmetric])
  ultimately show ?thesis by blast
qed

theorem success_iff_some_attempt_succeeded_witness:
  "rp_success (the (fst (wakeup exampleEnvironment exampleRequest)))
   \<and> attemptFlags (rp_details (the (fst (wakeup exampleEnvironment exampleRequest))))
       = [False, False, True]"
  using success_iff_some_attempt_succeeded[of exampleEnvironment exampleRequest]
  by (simp add: ex_response attemptFlags_def)

text \<open>
  C3, as stated: for every input that is not exactly 12 hexadecimal digits after stripping
  the separators, the attempt fails with the invalid-address error before any socket is
  created, bound or sent on. The sender creates its socket and requests the bind before it
  looks at the address: for \<open>not-a-mac\<close> the socket's log is creation, bind request, close.
\<close>

theorem invalid_address_socket_counterexample:
  "\<not> (length (stripSeparators ''not-a-mac'') = 12
       \<and> set (stripSeparators ''not-a-mac'') \<subseteq> hexDigits)
   \<and> at_promise (sendCustomMagicPacket (JString ''not-a-mac'') noOptions reachableNetwork)
       = Rejected ''Invalid MAC address format''
   \<and> sk_log (at_socket (sendCustomMagicPacket (JString ''not-a-mac'') noOptions reachableNetwork))
       = [Created, BindRequested None, Closed]"
proof -
  have s: "stripSeparators ''not-a-mac'' = ''notamac''"
    by (simp add: stripSeparators_def)
  have inv: "invalidMac (stripSeparators ''not-a-mac'')"
    by (simp add: s invalidMac_def)
  show ?thesis
    by (simp add: send_invalid[OF inv])
       (simp add: s defaultInterface_def noOptions_def truthyString_def)
qed

text \<open>
  C3, amended. For every input that is not exactly 12 hexadecimal digits after stripping
  the separators, the attempt fails with the invalid-address error and no datagram is
  passed to the socket or sent; the socket is created and its bind requested before the
  check, the bind never completes, and the check closes the socket.
\<close>

theorem invalid_address_rejected:
  assumes "\<not> (length (stripSeparators mac) = 12 \<and> set (stripSeparators mac) \<subseteq> hexDigits)"
  shows "at_promise (sendCustomMagicPacket (JString mac) options nw)
           = Rejected ''Invalid MAC address format''
       \<and> sk_log (at_socket (sendCustomMagicPacket (JString mac) options nw))
           = [Created, BindRequested (defaultInterface options), Closed]
       \<and> requestedDatagrams (sk_log (at_socket (sendCustomMagicPacket (JString mac) options nw))) = []
       \<and> transmittedDatagrams (sk_log (at_socket (sendCustomMagicPacket (JString mac) options nw))) = []
       \<and> sk_bindState (at_socket (sendCustomMagicPacket (JString mac) options nw)) = Binding
       \<and> \<not> sk_open (at_socket (sendCustomMagicPacket (JString mac) options nw))"
proof -
  from assms have "invalidMac (stripSeparators mac)"
    by (simp add: invalidMac_iff)
  then show ?thesis
    by (simp add: send_invalid)
qed

theorem invalid_address_rejected_witness:
  "\<not> (length (stripSeparators ''00:11:22:33:44:5g'') = 12
       \<and> set (stripSeparators ''00:11:22:33:44:5g'') \<subseteq> hexDigits)
   \<and> at_promise (sendCustomMagicPacket (JString ''00:11:22:33:44:5g'') noOptions reachableNetwork)
       = Rejected ''Invalid MAC address format''
   \<and> sk_log (at_socket (sendCustomMagicPacket (JString ''00:11:22:33:44:5g'') noOptions reachableNetwork))
       = [Created, BindRequested None, Closed]
   \<and> transmittedDatagrams
        (sk_log (at_socket (sendCustomMagicPacket (JString ''00:11:22:33:44:5g'') noOptions reachableNetwork)))
       = []"
proof -
  have h: "\<not> (length (stripSeparators ''00:11:22:33:44:5g'') = 12
       \<and> set (stripSeparators ''00:11:22:33:44:5g'') \<subseteq> hexDigits)"
    by (simp add: stripSeparators_def hexDigits_def)
  have d: "defaultInterface noOptions = None"
    by (simp add: defaultInterface_def noOptions_def truthyString_def)
  show ?thesis
    using invalid_address_rejected[OF h, of noOptions reachableNetwork] h d by simp
qed

text \<open>
  C4. In every run of one send attempt the broadcast option of the socket is switched on
  before the magic packet leaves: no datagram is handed to the network on a socket whose
  broadcast option is still off. (\<open>socket.send\<close> is called while the bind is under way;
  the datagram waits and leaves after the bind callback has run.) With a valid address, a
  port from 1 to 65535, a successful bind and a destination that resolves the packet does
  leave, on a socket with the option on.
\<close>

theorem broadcast_enabled_before_send:
  "enabledBeforeTransmit False (sk_log (at_socket (sendCustomMagicPacket mac options nw)))
   \<and> (length (stripSeparators m) = 12 \<and> set (stripSeparators m) \<subseteq> hexDigits
        \<and> 1 \<le> defaultPort options \<and> defaultPort options \<le> 65535
        \<and> nw_bind nw (defaultInterface options) = None
        \<and> nw_lookup nw (defaultAddress options) = None
      \<longrightarrow> transmittedDatagrams
              (sk_log (at_socket (sendCustomMagicPacket (JString m) options nw)))
            = [packetFor m options]
          \<and> sk_broadcast (at_socket (sendCustomMagicPacket (JString m) options nw)))"
proof -
  have "enabledBeforeTransmit False (sk_log (at_socket (sendCustomMagicPacket mac options nw)))"
    by (rule send_cases[where mac=mac and nw=nw and options=options])
       (simp_all add: send_paths)
  moreover have "transmittedDatagrams
        (sk_log (at_socket (sendCustomMagicPacket (JString m) options nw)))
      = [packetFor m options]
      \<and> sk_broadcast (at_socket (sendCustomMagicPacket (JString m) options nw))"
    if "length (stripSeparators m) = 12" and "set (stripSeparators m) \<subseteq> hexDigits"
      and "1 \<le> defaultPort options" and "defaultPort options \<le> 65535"
      and "nw_bind nw (defaultInterface options) = None"
      and "nw_lookup nw (defaultAddress options) = None"
    using that by (simp add: send_bound invalidMac_iff validPort_def)
  ultimately show ?thesis by blast
qed

theorem broadcast_enabled_before_send_witness:
  "length (stripSeparators ''00:11:22:33:44:55'') = 12
   \<and> set (stripSeparators ''00:11:22:33:44:55'') \<subseteq> hexDigits
   \<and> defaultPort noOptions = 9
   \<and> nw_bind reachableNetwork (defaultInterface noOptions) = None
   \<and> nw_lookup reachableNetwork (defaultAddress noOptions) = None
   \<and> enabledBeforeTransmit False
        (sk_log (at_socket
           (sendCustomMagicPacket (JString ''00:11:22:33:44:55'') noOptions reachableNetwork)))
   \<and> transmittedDatagrams
        (sk_log (at_socket
           (sendCustomMagicPacket (JString ''00:11:22:33:44:55'') noOptions reachableNetwork)))
       = [packetFor ''00:11:22:33:44:55'' noOptions]"
proof -
  have h: "length (stripSeparators ''00:11:22:33:44:55'') = 12
      \<and> set (stripSeparators ''00:11:22:33:44:55'') \<subseteq> hexDigits
      \<and> defaultPort noOptions = 9
      \<and> nw_bind reachableNetwork (defaultInterface noOptions) = None
      \<and> nw_lookup reachableNetwork (defaultAddress noOptions) = None"
    by (simp add: stripSeparators_def hexDigits_def reachableNetwork_def defaultPort_def
        noOptions_def truthyNumber_def)
  show ?thesis
    using broadcast_enabled_before_send[of "JString ''00:11:22:33:44:55''" noOptions
        reachableNetwork "''00:11:22:33:44:55''"] h
    by simp
qed

text \<open>
  C5. For every \<open>/wakeup\<close> request that supplies no \<open>macAddress\<close> (none, or the empty
  string) while no \<open>SERVER_MAC\<close> is configured, the handler answers 400 with the
  missing-address message; no packet is built, no socket is opened and no send is
  attempted, by the library or by the custom sender. The handler of \<open>index.js\<close> does the
  same.
\<close>

theorem missing_address_rejected:
  assumes "rq_macAddress req = None \<or> rq_macAddress req = Some (JString [])"
    and "env_SERVER_MAC env = None \<or> env_SERVER_MAC env = Some []"
  shows "wakeup env req =
           (Some \<lparr>rp_status = 400, rp_success = False, rp_message = ''MAC address not provided'',
                  rp_details = None\<rparr>,
            \<lparr>fx_libraryCalls = [], fx_customCalls = []\<rparr>)
       \<and> wakeupIndex env req =
           (Inr \<lparr>rp_status = 400, rp_success = False, rp_message = ''MAC address not provided'',
                 rp_details = None\<rparr>, [])"
  using assms by (auto simp: wakeup_def wakeupIndex_def resolveMac_def truthy_def)

theorem missing_address_rejected_witness:
  "rq_macAddress emptyRequest = None \<and> env_SERVER_MAC exampleEnvironment = None
   \<and> fst (wakeup exampleEnvironment emptyRequest) =
        Some \<lparr>rp_status = 400, rp_success = False, rp_message = ''MAC address not provided'',
              rp_details = None\<rparr>
   \<and> fx_customCalls (snd (wakeup exampleEnvironment emptyRequest)) = []
   \<and> fx_libraryCalls (snd (wakeup exampleEnvironment emptyRequest)) = []"
proof -
  have h1: "rq_macAddress emptyRequest = None
      \<or> rq_macAddress emptyRequest = Some (JString [])"
    by (simp add: emptyRequest_def)
  have h2: "env_SERVER_MAC exampleEnvironment = None
      \<or> env_SERVER_MAC exampleEnvironment = Some []"
    by (simp add: exampleEnvironment_def)
  show ?thesis
    using missing_address_rejected[OF h1 h2]
    by (simp add: emptyRequest_def exampleEnvironment_def)
qed

text \<open>
  C6. The multi-interface dispatch calls the sender exactly for the enumerated interface
  entries whose family is IPv4 and whose internal flag is false, in the order of the
  enumeration, each bound to that entry's address, and reports one entry for each under
  its name and address; when no interface qualifies the result is the empty list, not an
  error, and no socket is opened.
\<close>

theorem dispatch_selects_external_ipv4:
  assumes "useCustom req" and "rq_useAllInterfaces req"
  shows "map (\<lambda>c. opt_interface (cc_options c)) (snd (customAttempt env req mac options))
           = map (\<lambda>(name, iface). Some (if_address iface)) (qualifying (env_networkInterfaces env))
       \<and> (\<exists>rs. fst (customAttempt env req mac options) = Some (Some (PerInterface rs))
              \<and> map (\<lambda>r. (ir_interface r, ir_address r)) rs
                  = map (\<lambda>(name, iface). (name, if_address iface))
                      (qualifying (env_networkInterfaces env)))
       \<and> (qualifying (env_networkInterfaces env) = []
            \<longrightarrow> customAttempt env req mac options = (Some (Some (PerInterface [])), []))"
proof -
  let ?Q = "qualifying (env_networkInterfaces env)"
  have a: "map (\<lambda>c. opt_interface (cc_options c)) (snd (customAttempt env req mac options))
      = map (\<lambda>kni. (\<lambda>(name, iface). Some (if_address iface)) (snd kni)) (enumerate 0 ?Q)"
    by (simp add: customAttempt_all[OF assms] comp_def split_beta attemptFor_def Let_def)
  have b: "map (\<lambda>r. (ir_interface r, ir_address r))
        (map (expectedEntry mac options (env_network env)) (enumerate 0 ?Q))
      = map (\<lambda>kni. (\<lambda>(name, iface). (name, if_address iface)) (snd kni)) (enumerate 0 ?Q)"
    by (simp add: comp_def split_beta expectedEntry_def Let_def)
  show ?thesis
    using a b unfolding map_enumerate_snd
    by (simp add: customAttempt_all[OF assms])
qed

theorem dispatch_selects_external_ipv4_witness:
  "useCustom exampleRequest \<and> rq_useAllInterfaces exampleRequest
   \<and> map (\<lambda>c. opt_interface (cc_options c))
        (snd (customAttempt exampleEnvironment exampleRequest (JString ''AA-BB-CC-DD-EE-FF'')
           noOptions))
      = [Some ''192.168.1.5'', Some ''10.0.0.7'']"
  using dispatch_selects_external_ipv4[OF ex_use(1) ex_use(3), of exampleEnvironment
      "JString ''AA-BB-CC-DD-EE-FF''" noOptions] ex_use
  by (simp add: ex_q)

text \<open>
  C7. In a multi-interface dispatch every qualifying interface yields exactly one entry of
  the report, in the order of the enumeration, and the entry of an interface tells the
  outcome of that interface's own attempt: success when its promise resolves, failure with
  the error message when it is rejected (invalid address, failed bind, failed send). A
  failure of one attempt neither removes nor changes the entry of another, and the
  dispatch itself does not fail.
\<close>

theorem dispatch_isolates_failures:
  assumes "useCustom req" and "rq_useAllInterfaces req"
  shows "\<exists>rs. fst (customAttempt env req mac options) = Some (Some (PerInterface rs))
          \<and> length rs = length (qualifying (env_networkInterfaces env))
          \<and> (\<forall>k < length rs.
                rs ! k = expectedEntry mac options (env_network env)
                           (k, qualifying (env_networkInterfaces env) ! k)
                \<and> ir_success (rs ! k)
                    = (at_promise (sendCustomMagicPacket mac
                         (options\<lparr>opt_interface :=
                            Some (if_address (snd (qualifying (env_networkInterfaces env) ! k)))\<rparr>)
                         (env_network env k)) = Resolved)
                \<and> (\<forall>err. at_promise (sendCustomMagicPacket mac
                         (options\<lparr>opt_interface :=
                            Some (if_address (snd (qualifying (env_networkInterfaces env) ! k)))\<rparr>)
                         (env_network env k)) = Rejected err
                      \<longrightarrow> \<not> ir_success (rs ! k) \<and> ir_error (rs ! k) = Some err))"
proof -
  let ?Q = "qualifying (env_networkInterfaces env)"
  let ?rs = "map (expectedEntry mac options (env_network env)) (enumerate 0 ?Q)"
  have "fst (customAttempt env req mac options) = Some (Some (PerInterface ?rs))"
    by (simp add: customAttempt_all[OF assms])
  moreover have "length ?rs = length ?Q" by simp
  moreover have "?rs ! k = expectedEntry mac options (env_network env) (k, ?Q ! k)"
    if "k < length ?rs" for k
    using that by (simp add: nth_enumerate_eq)
  moreover have "ir_success (expectedEntry mac options (env_network env) (k, ni))
      = (at_promise (sendCustomMagicPacket mac
           (options\<lparr>opt_interface := Some (if_address (snd ni))\<rparr>) (env_network env k)) = Resolved)"
    for k ni
    by (cases ni) (simp add: expectedEntry_def Let_def promise_outcome split: option.splits)
  moreover have "at_promise (sendCustomMagicPacket mac
           (options\<lparr>opt_interface := Some (if_address (snd ni))\<rparr>) (env_network env k)) = Rejected err
      \<Longrightarrow> \<not> ir_success (expectedEntry mac options (env_network env) (k, ni))
          \<and> ir_error (expectedEntry mac options (env_network env) (k, ni)) = Some err"
    for k ni err
    by (cases ni) (simp add: expectedEntry_def Let_def promise_outcome split: option.splits)
  ultimately show ?thesis by (intro exI[of _ ?rs]) simp
qed

theorem dispatch_isolates_failures_witness:
  "useCustom exampleRequest \<and> rq_useAllInterfaces exampleRequest
   \<and> nw_bind (env_network exampleEnvironment 0) (Some ''192.168.1.5'') = Some ''bind EADDRNOTAVAIL''
   \<and> fst (customAttempt exampleEnvironment exampleRequest (JString ''AA-BB-CC-DD-EE-FF'')
        noOptions)
      = Some (Some (PerInterface
          [\<lparr>ir_interface = ''eth0'', ir_address = ''192.168.1.5'', ir_success = False,
             ir_error = Some ''bind EADDRNOTAVAIL''\<rparr>,
           \<lparr>ir_interface = ''wlan0'', ir_address = ''10.0.0.7'', ir_success = True,
             ir_error = None\<rparr>]))"
proof -
  have b: "nw_bind (env_network exampleEnvironment 0) (Some ''192.168.1.5'')
      = Some ''bind EADDRNOTAVAIL''"
    by (simp add: exampleEnvironment_def unboundNetwork_def)
  obtain rs where rs:
      "fst (customAttempt exampleEnvironment exampleRequest (JString ''AA-BB-CC-DD-EE-FF'')
        noOptions)
        = Some (Some (PerInterface rs))"
    and len: "length rs = length (qualifying (env_networkInterfaces exampleEnvironment))"
    and nth: "\<forall>k < length rs. rs ! k = expectedEntry (JString ''AA-BB-CC-DD-EE-FF'') noOptions
        (env_network exampleEnvironment)
        (k, qualifying (env_networkInterfaces exampleEnvironment) ! k)"
    using dispatch_isolates_failures[OF ex_use(1) ex_use(3), of exampleEnvironment
        "JString ''AA-BB-CC-DD-EE-FF''" noOptions]
    by blast
  have "rs = map (expectedEntry (JString ''AA-BB-CC-DD-EE-FF'') noOptions (env_network exampleEnvironment))
      (enumerate 0 (qualifying (env_networkInterfaces exampleEnvironment)))"
    using len nth by (intro nth_equalityI) (simp_all add: nth_enumerate_eq)
  then show ?thesis
    using rs b ex_use by (simp add: ex_entries[OF ex_port(1)])
qed

text \<open>
  C8. The claim: the UDP socket a send attempt opens is closed on every exit path of the
  attempt. The sender closes the socket where it rejects an invalid address, in the
  \<open>error\<close> handler and in the callback of the send, but not when \<open>socket.send\<close> raises
  an exception: for the request with port 70000 on a host where the bind succeeds the
  attempt is rejected, the handler answers 500, and the socket of the attempt is bound,
  open and never closed. A \<open>macAddress\<close> that is a number ends the same way at
  \<open>mac.replace\<close>.
\<close>

theorem socket_left_open_after_exception:
  "fst (wakeup plainEnvironment largePortRequest)
     = Some \<lparr>rp_status = 500, rp_success = False,
             rp_message = ''Failed to send Wake-on-LAN packet'',
             rp_details = Some \<lparr>rs_library = None,
               rs_custom = Some (Single \<lparr>ar_success = False,
                                          ar_error = Some badPortMessage\<rparr>)\<rparr>\<rparr>
   \<and> map (\<lambda>c. (sk_open (at_socket (cc_attempt c)), sk_bindState (at_socket (cc_attempt c)),
               count_list (sk_log (at_socket (cc_attempt c))) Closed))
        (fx_customCalls (snd (wakeup plainEnvironment largePortRequest)))
       = [(True, Bound, 0)]
   \<and> map (\<lambda>c. (sk_open (at_socket (cc_attempt c)), sk_bindState (at_socket (cc_attempt c)),
               count_list (sk_log (at_socket (cc_attempt c))) Closed))
        (fx_customCalls (snd (wakeup plainEnvironment numberMacRequest)))
       = [(True, Bound, 0)]"
proof -
  have v: "\<not> invalidMac (stripSeparators ''00:11:22:33:44:55'')"
    by (simp add: invalidMac_iff stripSeparators_def hexDigits_def)
  let ?o = "\<lparr>opt_address = Some ''255.255.255.255'', opt_port = Some 70000, opt_interface = None\<rparr>"
  let ?d = "\<lparr>opt_address = Some ''255.255.255.255'', opt_port = Some 9, opt_interface = None\<rparr>"
  have o: "baseOptions plainEnvironment largePortRequest = ?o"
    by (simp add: baseOptions_def plainEnvironment_def largePortRequest_def truthyString_def
        truthyNumber_def)
  have d: "baseOptions plainEnvironment numberMacRequest = ?d"
    by (simp add: baseOptions_def plainEnvironment_def numberMacRequest_def truthyString_def
        truthyNumber_def)
  have p: "\<not> validPort (defaultPort ?o)"
    by (simp add: validPort_def defaultPort_def truthyNumber_def)
  have b: "nw_bind (env_network plainEnvironment 0) x = None" for x
    by (simp add: plainEnvironment_def reachableNetwork_def)
  have u: "useCustom largePortRequest" "\<not> useLibrary largePortRequest"
      "\<not> rq_useAllInterfaces largePortRequest"
      "useCustom numberMacRequest" "\<not> useLibrary numberMacRequest"
      "\<not> rq_useAllInterfaces numberMacRequest"
    by (simp_all add: useCustom_def useLibrary_def largePortRequest_def numberMacRequest_def
        truthyString_def)
  have m: "resolveMac plainEnvironment largePortRequest = Some (JString ''00:11:22:33:44:55'')"
      "resolveMac plainEnvironment numberMacRequest = Some (JNumber 12345)"
    by (simp_all add: resolveMac_def largePortRequest_def numberMacRequest_def truthy_def)
  have s1: "sendCustomMagicPacket (JString ''00:11:22:33:44:55'') ?o (env_network plainEnvironment 0)
      = \<lparr>at_socket = \<lparr>sk_open = True, sk_bindState = Bound,
          sk_bindAddress = defaultInterface ?o, sk_broadcast = True, sk_queue = [],
          sk_inflight = [], sk_log = [Created, BindRequested (defaultInterface ?o),
            SendRequested (packetFor ''00:11:22:33:44:55'' ?o), BroadcastSet True]\<rparr>,
        at_promise = Rejected badPortMessage\<rparr>"
    by (rule send_bad_port_bound[OF v p b])
  have s2: "sendCustomMagicPacket (JNumber 12345) ?d (env_network plainEnvironment 0)
      = \<lparr>at_socket = \<lparr>sk_open = True, sk_bindState = Bound,
          sk_bindAddress = defaultInterface ?d, sk_broadcast = True, sk_queue = [],
          sk_inflight = [],
          sk_log = [Created, BindRequested (defaultInterface ?d), BroadcastSet True]\<rparr>,
        at_promise = Rejected notAFunctionMessage\<rparr>"
    by (rule send_not_string_bound[OF _ b]) simp
  have w1: "wakeup plainEnvironment largePortRequest =
      (Some (respond \<lparr>rs_library = None,
          rs_custom = Some (Single \<lparr>ar_success = False, ar_error = Some badPortMessage\<rparr>)\<rparr>),
       \<lparr>fx_libraryCalls = [],
         fx_customCalls = [\<lparr>cc_mac = JString ''00:11:22:33:44:55'', cc_options = ?o,
           cc_attempt = sendCustomMagicPacket (JString ''00:11:22:33:44:55'') ?o
             (env_network plainEnvironment 0)\<rparr>]\<rparr>)"
    by (simp add: wakeup_def m truthy_def Let_def o libraryAttempt_def u
        customAttempt_single[OF u(1) u(3)] attemptOutcome_def v p)
  have w2: "fx_customCalls (snd (wakeup plainEnvironment numberMacRequest)) =
      [\<lparr>cc_mac = JNumber 12345, cc_options = ?d,
        cc_attempt = sendCustomMagicPacket (JNumber 12345) ?d (env_network plainEnvironment 0)\<rparr>]"
    by (simp add: wakeup_def m truthy_def Let_def d libraryAttempt_def u
        customAttempt_single[OF u(4) u(6)])
  show ?thesis
    unfolding w1 w2 by (simp add: s1 s2 respond_def anySuccess_def)
qed

text \<open>
  C9. For every qualifying interface of a multi-interface dispatch the options of its
  attempt are the base options with the interface field alone replaced, by that
  interface's address: the destination address and the destination port are those of the
  base options in the options of every attempt, and every datagram of the dispatch is
  addressed to them.
\<close>

theorem dispatch_options_frame:
  assumes "useCustom req" and "rq_useAllInterfaces req"
  shows "map cc_options (snd (customAttempt env req mac options))
           = map (\<lambda>(name, iface). options\<lparr>opt_interface := Some (if_address iface)\<rparr>)
               (qualifying (env_networkInterfaces env))
       \<and> list_all (\<lambda>c. opt_address (cc_options c) = opt_address options
                        \<and> opt_port (cc_options c) = opt_port options
                        \<and> list_all (\<lambda>dg. dg_address dg = defaultAddress options
                                          \<and> dg_port dg = defaultPort options)
                             (requestedDatagrams (sk_log (at_socket (cc_attempt c)))))
           (snd (customAttempt env req mac options))"
proof -
  let ?Q = "qualifying (env_networkInterfaces env)"
  have "map cc_options (snd (customAttempt env req mac options))
      = map (\<lambda>kni. (\<lambda>(name, iface). options\<lparr>opt_interface := Some (if_address iface)\<rparr>) (snd kni))
          (enumerate 0 ?Q)"
    by (simp add: customAttempt_all_calls[OF assms] comp_def split_beta)
  then have first: "map cc_options (snd (customAttempt env req mac options))
      = map (\<lambda>(name, iface). options\<lparr>opt_interface := Some (if_address iface)\<rparr>) ?Q"
    unfolding map_enumerate_snd .
  have dest: "list_all (\<lambda>dg. dg_address dg = defaultAddress options \<and> dg_port dg = defaultPort options)
      (requestedDatagrams (sk_log (at_socket (sendCustomMagicPacket mac
          (options\<lparr>opt_interface := Some a\<rparr>) nw))))" for a nw
    using requested_destination[of "options\<lparr>opt_interface := Some a\<rparr>" mac nw]
    by (simp only: defaults_interface_update)
  have second: "list_all (\<lambda>c. opt_address (cc_options c) = opt_address options
                        \<and> opt_port (cc_options c) = opt_port options
                        \<and> list_all (\<lambda>dg. dg_address dg = defaultAddress options
                                          \<and> dg_port dg = defaultPort options)
                             (requestedDatagrams (sk_log (at_socket (cc_attempt c)))))
           (snd (customAttempt env req mac options))"
    using dest by (simp add: customAttempt_all_calls[OF assms] list_all_iff)
  from first second show ?thesis by blast
qed

theorem dispatch_options_frame_witness:
  "useCustom exampleRequest \<and> rq_useAllInterfaces exampleRequest
   \<and> map cc_options (snd (customAttempt exampleEnvironment exampleRequest
        (JString ''AA-BB-CC-DD-EE-FF'')
        \<lparr>opt_address = Some ''192.168.1.255'', opt_port = Some 7, opt_interface = None\<rparr>))
     = [\<lparr>opt_address = Some ''192.168.1.255'', opt_port = Some 7,
         opt_interface = Some ''192.168.1.5''\<rparr>,
        \<lparr>opt_address = Some ''192.168.1.255'', opt_port = Some 7,
         opt_interface = Some ''10.0.0.7''\<rparr>]"
  using dispatch_options_frame[OF ex_use(1) ex_use(3), of exampleEnvironment
      "JString ''AA-BB-CC-DD-EE-FF''"
      "\<lparr>opt_address = Some ''192.168.1.255'', opt_port = Some 7, opt_interface = None\<rparr>"] ex_use
  by (simp add: ex_q)

text \<open>
  C10. The destination of every send attempt of a \<open>/wakeup\<close> request is the address the
  environment configures (\<open>WOL_BROADCAST_ADDR\<close>, or \<open>255.255.255.255\<close> without it): it is
  the address in the options of every library call and of every custom call and the
  address of every datagram. The handler does not read the \<open>broadcastAddr\<close> field of the
  body: two requests that differ in that field alone get the same answer and have the same
  effects.
\<close>

theorem broadcast_address_from_environment_only:
  "wakeup env (req\<lparr>rq_broadcastAddr := b\<rparr>) = wakeup env req
   \<and> list_all (\<lambda>call. opt_address (snd call) = Some (configuredBroadcast env))
       (fx_libraryCalls (snd (wakeup env req)))
   \<and> list_all (\<lambda>c. opt_address (cc_options c) = Some (configuredBroadcast env)
                    \<and> list_all (\<lambda>dg. dg_address dg = configuredBroadcast env)
                         (requestedDatagrams (sk_log (at_socket (cc_attempt c))))
                    \<and> list_all (\<lambda>dg. dg_address dg = configuredBroadcast env)
                         (transmittedDatagrams (sk_log (at_socket (cc_attempt c)))))
       (fx_customCalls (snd (wakeup env req)))"
proof -
  have same: "wakeup env (req\<lparr>rq_broadcastAddr := b\<rparr>) = wakeup env req"
    unfolding wakeup_def by (simp only: broadcastAddr_unread)
  have lib: "list_all (\<lambda>call. opt_address (snd call) = Some (configuredBroadcast env))
       (fx_libraryCalls (snd (wakeup env req)))"
    by (simp add: wakeup_def Let_def split_beta libraryAttempt_def baseOptions_address
        split: wakeOutcome.splits)
  have "opt_address (cc_options c) = Some (configuredBroadcast env)
      \<and> list_all (\<lambda>dg. dg_address dg = configuredBroadcast env)
           (requestedDatagrams (sk_log (at_socket (cc_attempt c))))
      \<and> list_all (\<lambda>dg. dg_address dg = configuredBroadcast env)
           (transmittedDatagrams (sk_log (at_socket (cc_attempt c))))"
    if cin: "c \<in> set (fx_customCalls (snd (wakeup env req)))" for c
  proof -
    obtain k where k: "cc_attempt c = sendCustomMagicPacket (the (resolveMac env req)) (cc_options c)
        (env_network env k)"
      and d: "defaultAddress (cc_options c) = defaultAddress (baseOptions env req)"
      and a: "opt_address (cc_options c) = opt_address (baseOptions env req)"
      using calls_are_sends[OF wakeup_calls[OF cin]] by blast
    show ?thesis
      using requested_destination[of "cc_options c" "the (resolveMac env req)" "env_network env k"]
        transmitted_destination[of "cc_options c" "the (resolveMac env req)" "env_network env k"]
      by (simp add: k[symmetric] d a baseOptions_address list_all_iff)
  qed
  then have "list_all (\<lambda>c. opt_address (cc_options c) = Some (configuredBroadcast env)
                    \<and> list_all (\<lambda>dg. dg_address dg = configuredBroadcast env)
                         (requestedDatagrams (sk_log (at_socket (cc_attempt c))))
                    \<and> list_all (\<lambda>dg. dg_address dg = configuredBroadcast env)
                         (transmittedDatagrams (sk_log (at_socket (cc_attempt c)))))
       (fx_customCalls (snd (wakeup env req)))"
    by (simp add: list_all_iff)
  with same lib show ?thesis by blast
qed

theorem broadcast_address_from_environment_only_witness:
  "rq_broadcastAddr exampleRequest = Some ''10.9.8.7''
   \<and> configuredBroadcast exampleEnvironment = ''192.168.1.255''
   \<and> wakeup exampleEnvironment (exampleRequest\<lparr>rq_broadcastAddr := None\<rparr>)
       = wakeup exampleEnvironment exampleRequest
   \<and> map snd (fx_libraryCalls (snd (wakeup exampleEnvironment exampleRequest)))
       = [\<lparr>opt_address = Some ''192.168.1.255'', opt_port = Some 9, opt_interface = None\<rparr>]
   \<and> map (\<lambda>c. opt_address (cc_options c))
        (fx_customCalls (snd (wakeup exampleEnvironment exampleRequest)))
       = [Some ''192.168.1.255'', Some ''192.168.1.255'']"
proof -
  have c: "configuredBroadcast exampleEnvironment = ''192.168.1.255''"
    by (simp add: configuredBroadcast_def exampleEnvironment_def)
  have o: "baseOptions exampleEnvironment exampleRequest
      = \<lparr>opt_address = Some ''192.168.1.255'', opt_port = Some 9, opt_interface = None\<rparr>"
    by (simp add: baseOptions_def exampleEnvironment_def exampleRequest_def truthyString_def
        truthyNumber_def)
  have l: "map snd (fx_libraryCalls (snd (wakeup exampleEnvironment exampleRequest)))
      = [\<lparr>opt_address = Some ''192.168.1.255'', opt_port = Some 9, opt_interface = None\<rparr>]"
    by (simp add: wakeup_def ex_mac truthy_def Let_def ex_library split_beta o)
  have n: "map (\<lambda>c. opt_address (cc_options c))
        (fx_customCalls (snd (wakeup exampleEnvironment exampleRequest)))
       = [Some ''192.168.1.255'', Some ''192.168.1.255'']"
    by (simp add: wakeup_def ex_mac truthy_def Let_def ex_library split_beta o
        customAttempt_all_calls[OF ex_use(1) ex_use(3)] ex_q)
  show ?thesis
    using broadcast_address_from_environment_only[where env=exampleEnvironment
        and req=exampleRequest and b=None] c l n
    by (simp add: exampleRequest_def)
qed

end
